theory Spec2Isabelle
  imports Main
begin

section \<open>JavaScript values and string primitives\<close>

text \<open>
  Strings are lists of code units; a \<^typ>\<open>char\<close> is a code unit below 256, so the model
  covers the Latin-1 part of JavaScript's strings. A value read from a parsed JSON
  object is a \<open>json\<close>; an object is a map from property names to values, and a property
  that is not there reads as \<open>None\<close> (JavaScript's \<open>undefined\<close>).
\<close>

datatype json =
    JString string
  | JNumber int
  | JBool bool
  | JNull
  | JArray "json list"
  | JObject "(string \<times> json) list"

type_synonym JWTPayload = "string \<rightharpoonup> json"

text \<open>\<open>!x\<close> for \<open>x : string | undefined | null\<close>: the empty string is falsy too.\<close>

definition falsy :: "string option \<Rightarrow> bool" where
  "falsy x = (case x of None \<Rightarrow> True | Some s \<Rightarrow> s = [])"

text \<open>
  \<open>String.prototype.trim\<close> removes white space and line terminators at both ends. Below
  256 these are TAB, LF, VT, FF, CR, SP and NBSP.
\<close>

definition isWhiteSpace :: "char \<Rightarrow> bool" where
  "isWhiteSpace c = ((of_char c :: nat) \<in> {9, 10, 11, 12, 13, 32, 160})"

definition trim :: "string \<Rightarrow> string" where
  "trim s = rev (dropWhile isWhiteSpace (rev (dropWhile isWhiteSpace s)))"

text \<open>
  \<open>String.prototype.toLowerCase\<close>: below 256 the upper-case letters are A to Z and
  U+00C0 to U+00DE without the multiplication sign U+00D7, each 32 below its lower-case
  form.
\<close>

definition toLowerCaseUnit :: "char \<Rightarrow> char" where
  "toLowerCaseUnit c =
     (let n = (of_char c :: nat) in
      if (65 \<le> n \<and> n \<le> 90) \<or> (192 \<le> n \<and> n \<le> 222 \<and> n \<noteq> 215)
      then char_of (n + 32) else c)"

definition toLowerCase :: "string \<Rightarrow> string" where
  "toLowerCase s = map toLowerCaseUnit s"

text \<open>\<open>s.endsWith(t)\<close>.\<close>

definition endsWith :: "string \<Rightarrow> string \<Rightarrow> bool" where
  "endsWith s t = (length t \<le> length s \<and> drop (length s - length t) s = t)"

text \<open>\<open>s.replace(/\/+$/, "")\<close>: the trailing slashes are removed.\<close>

definition stripTrailingSlashes :: "string \<Rightarrow> string" where
  "stripTrailingSlashes s = rev (dropWhile (\<lambda>c. c = CHR ''/'') (rev s))"


section \<open>The OIDC verifier (src/gateway/oidc.ts)\<close>

record OidcVerifierConfig =
  issuer :: string
  audience :: string
  jwksUri :: "string option"
  userClaim :: "string option"
  allowedDomains :: "string list option"
  allowedEmails :: "string list option"

datatype OidcVerifyResult =
    VerifyOk string JWTPayload
  | VerifyFail string

text \<open>
  \<open>jwtVerify\<close> belongs to the jose library. It resolves to the verified payload or
  rejects with a thrown value. The handler of \<open>verify\<close> reads the thrown value's \<open>code\<close>
  property when the value is an object that has one; any other thrown value (and a
  \<open>code\<close> that is no string) compares unequal to both codes the handler tests.
\<close>

datatype js_thrown =
    ThrownWithCode string
  | ThrownOther

datatype jwt_outcome =
    Verified JWTPayload
  | Thrown js_thrown

record jwt_verify_options =
  opt_issuer :: string
  opt_audience :: string

type_synonym jwt_verify = "string \<Rightarrow> jwt_verify_options \<Rightarrow> jwt_outcome"

definition extractUserClaim :: "JWTPayload \<Rightarrow> string \<Rightarrow> string option" where
  "extractUserClaim payload claim =
     (case payload claim of
        Some (JString val) \<Rightarrow> if trim val \<noteq> [] then Some (trim val) else None
      | _ \<Rightarrow> None)"

definition checkDomainRestriction :: "string option \<Rightarrow> string list \<Rightarrow> bool" where
  "checkDomainRestriction email allowed =
     (case email of
        None \<Rightarrow> False
      | Some e \<Rightarrow> if e = [] then False else list_ex (\<lambda>d. endsWith e (''@'' @ d)) allowed)"

definition checkEmailAllowlist :: "string option \<Rightarrow> string list \<Rightarrow> bool" where
  "checkEmailAllowlist email allowed =
     (case email of
        None \<Rightarrow> False
      | Some e \<Rightarrow> if e = [] then False
                  else list_ex (\<lambda>a. toLowerCase a = toLowerCase e) allowed)"

text \<open>\<open>config.allowedDomains?.length\<close> as a condition: the list is there and not empty.\<close>

definition hasLength :: "string list option \<Rightarrow> bool" where
  "hasLength xs = (case xs of None \<Rightarrow> False | Some l \<Rightarrow> length l \<noteq> 0)"

definition listOf :: "string list option \<Rightarrow> string list" where
  "listOf xs = (case xs of None \<Rightarrow> [] | Some l \<Rightarrow> l)"

definition emailOf :: "JWTPayload \<Rightarrow> string option" where
  "emailOf payload = (case payload ''email'' of Some (JString e) \<Rightarrow> Some e | _ \<Rightarrow> None)"

definition errorCode :: "js_thrown \<Rightarrow> string" where
  "errorCode err = (case err of ThrownWithCode c \<Rightarrow> c | ThrownOther \<Rightarrow> [])"

text \<open>
  The constants \<open>createOidcVerifier\<close> computes once: \<open>config.userClaim ?? "sub"\<close>, the
  issuer without its trailing slashes, and the options \<open>verify\<close> hands to \<open>jwtVerify\<close>.
\<close>

definition userClaimOf :: "OidcVerifierConfig \<Rightarrow> string" where
  "userClaimOf config = (case userClaim config of None \<Rightarrow> ''sub'' | Some c \<Rightarrow> c)"

definition normalizedIssuer :: "OidcVerifierConfig \<Rightarrow> string" where
  "normalizedIssuer config = stripTrailingSlashes (issuer config)"

definition verifyOptions :: "OidcVerifierConfig \<Rightarrow> jwt_verify_options" where
  "verifyOptions config =
     \<lparr>opt_issuer = normalizedIssuer config, opt_audience = audience config\<rparr>"

text \<open>
  The \<open>verify\<close> method of the object \<open>createOidcVerifier\<close> returns. The key set the
  constructor fetches is part of the \<open>jwtVerify\<close> argument here. Every path of the
  source's \<open>try\<close> and \<open>catch\<close> returns a result, so the result type has no exception.
\<close>

definition verify :: "OidcVerifierConfig \<Rightarrow> jwt_verify \<Rightarrow> string \<Rightarrow> OidcVerifyResult" where
  "verify config jwtVerify token =
     (case jwtVerify token (verifyOptions config) of
        Verified payload \<Rightarrow>
          (let user = extractUserClaim payload (userClaimOf config) in
           if falsy user then VerifyFail ''oidc_user_claim_missing''
           else
             (let email = emailOf payload in
              if hasLength (allowedDomains config)
                 \<and> \<not> checkDomainRestriction email (listOf (allowedDomains config))
              then VerifyFail ''oidc_domain_not_allowed''
              else if hasLength (allowedEmails config)
                      \<and> \<not> checkEmailAllowlist email (listOf (allowedEmails config))
              then VerifyFail ''oidc_email_not_allowed''
              else VerifyOk (the user) payload))
      | Thrown err \<Rightarrow>
          (let code = errorCode err in
           if code = ''ERR_JWT_EXPIRED'' then VerifyFail ''oidc_token_expired''
           else if code = ''ERR_JWS_SIGNATURE_VERIFICATION_FAILED''
           then VerifyFail ''oidc_signature_invalid''
           else VerifyFail ''oidc_token_invalid''))"


section \<open>The token broker (src/unnamed/part_001, the module imported as azure-obo)\<close>

text \<open>\<open>AZURE_AD_CONFIG\<close>: each value is read from the environment once, \<open>""\<close> when unset.\<close>

record AzureAdConfig =
  clientId :: string
  clientSecret :: string
  tenantId :: string

record CachedToken =
  accessToken :: string
  expiresAt :: int

datatype AzureTokenResult =
    is_ok: TokenOk (result_accessToken: string)
  | TokenErr (result_error: string)

text \<open>
  The request \<open>fetch\<close> sends: the URL and the entries of the \<open>URLSearchParams\<close> body in
  their order.
\<close>

record fetch_request =
  req_url :: string
  req_body :: "(string \<times> string) list"

text \<open>
  What the token endpoint's JSON holds, at the type the code asserts: \<open>access_token\<close> and
  \<open>expires_in\<close>, each possibly absent. Times and lifetimes are integers (milliseconds and
  seconds).
\<close>

record token_response =
  access_token :: "string option"
  expires_in :: "int option"

text \<open>
  \<open>await res.json()\<close> rejects with a message (a body that is no JSON), or resolves. A
  body that is JSON but \<open>null\<close> makes the read of \<open>data.access_token\<close> throw inside the
  same \<open>try\<close>, which is the rejecting case again.
\<close>

datatype json_outcome =
    JsonRejects string
  | JsonResolves token_response

text \<open>\<open>res_text\<close> is \<open>None\<close> when \<open>res.text()\<close> rejects.\<close>

record http_response =
  res_ok :: bool
  res_status :: nat
  res_statusText :: string
  res_text :: "string option"
  res_json :: json_outcome

text \<open>\<open>fetch\<close> rejects (network fault, timeout) with a message, or resolves to a response.\<close>

datatype fetch_outcome =
    FetchRejects string
  | FetchResolves http_response

text \<open>
  The module's state: the \<open>tokenCache\<close> map, and the requests sent to the token endpoint
  so far, oldest first.
\<close>

record broker_state =
  tokenCache :: "string \<rightharpoonup> CachedToken"
  fetchLog :: "fetch_request list"

text \<open>
  What one call meets outside the module: the value of \<open>Date.now()\<close> when the cache is
  read, the token endpoint's answer to a request, and the value of \<open>Date.now()\<close> when the
  answer is stored.
\<close>

record call_env =
  clockAtLookup :: int
  endpoint :: "fetch_request \<Rightarrow> fetch_outcome"
  clockAtStore :: int

datatype scopes_arg =
    ScopeString string
  | ScopeArray "string list"

fun join :: "string \<Rightarrow> string list \<Rightarrow> string" where
  "join sep [] = []"
| "join sep [x] = x"
| "join sep (x # y # ys) = x @ sep @ join sep (y # ys)"

definition scopesOf :: "scopes_arg \<Rightarrow> string" where
  "scopesOf targetScopes =
     (case targetScopes of ScopeArray xs \<Rightarrow> join '' '' xs | ScopeString x \<Rightarrow> x)"

text \<open>A status code inside a template literal: its decimal digits.\<close>

definition digitChar :: "nat \<Rightarrow> char" where
  "digitChar d = char_of (48 + d)"

fun numberToString :: "nat \<Rightarrow> string" where
  "numberToString n =
     (if 10 \<le> n then numberToString (n div 10) @ [digitChar (n mod 10)] else [digitChar n])"

declare numberToString.simps [simp del]

definition TOKEN_EXPIRY_BUFFER_MS :: int where
  "TOKEN_EXPIRY_BUFFER_MS = 5 * 60 * 1000"

definition getCachedToken :: "string \<Rightarrow> int \<Rightarrow> broker_state \<Rightarrow> string option" where
  "getCachedToken cacheKey now s =
     (case tokenCache s cacheKey of
        Some cached \<Rightarrow>
          if expiresAt cached > now + TOKEN_EXPIRY_BUFFER_MS then Some (accessToken cached)
          else None
      | None \<Rightarrow> None)"

definition setCachedToken :: "string \<Rightarrow> string \<Rightarrow> int \<Rightarrow> int \<Rightarrow> broker_state \<Rightarrow> broker_state" where
  "setCachedToken cacheKey tok expiresIn now s =
     s\<lparr>tokenCache := (tokenCache s)
          (cacheKey \<mapsto> \<lparr>accessToken = tok, expiresAt = now + expiresIn * 1000\<rparr>)\<rparr>"

definition notConfiguredError :: string where
  "notConfiguredError =
     ''Azure AD credentials not configured. Set AZURE_AD_CLIENT_ID, AZURE_AD_CLIENT_SECRET, AZURE_AD_TENANT_ID.''"

definition tokenUrlOf :: "AzureAdConfig \<Rightarrow> string" where
  "tokenUrlOf cfg = ''https://login.microsoftonline.com/'' @ tenantId cfg @ ''/oauth2/v2.0/token''"

text \<open>\<open>await fetch(...)\<close>: the request is sent (logged) and the endpoint answers.\<close>

definition fetch :: "call_env \<Rightarrow> fetch_request \<Rightarrow> broker_state \<Rightarrow> fetch_outcome \<times> broker_state" where
  "fetch w req s = (endpoint w req, s\<lparr>fetchLog := fetchLog s @ [req]\<rparr>)"

text \<open>\<open>detail || res.statusText\<close> with \<open>detail = await res.text().catch(() => "")\<close>.\<close>

definition detailOrStatusText :: "http_response \<Rightarrow> string" where
  "detailOrStatusText res =
     (let detail = (case res_text res of None \<Rightarrow> [] | Some t \<Rightarrow> t)
      in if detail \<noteq> [] then detail else res_statusText res)"

text \<open>\<open>data.expires_in ?? 3600\<close>.\<close>

definition lifetimeOf :: "token_response \<Rightarrow> int" where
  "lifetimeOf data = (case expires_in data of None \<Rightarrow> 3600 | Some n \<Rightarrow> n)"

definition silentRequest :: "AzureAdConfig \<Rightarrow> string \<Rightarrow> string \<Rightarrow> fetch_request" where
  "silentRequest cfg refreshToken scopes =
     \<lparr>req_url = tokenUrlOf cfg,
      req_body = [(''client_id'', clientId cfg),
                  (''client_secret'', clientSecret cfg),
                  (''grant_type'', ''refresh_token''),
                  (''refresh_token'', refreshToken),
                  (''scope'', scopes)]\<rparr>"

definition acquireTokenSilent ::
  "AzureAdConfig \<Rightarrow> call_env \<Rightarrow> string \<Rightarrow> scopes_arg \<Rightarrow> broker_state
     \<Rightarrow> AzureTokenResult \<times> broker_state" where
  "acquireTokenSilent cfg w refreshToken targetScopes s =
     (let scopes = scopesOf targetScopes;
          cacheKey = ''silent:'' @ scopes;
          cached = getCachedToken cacheKey (clockAtLookup w) s
      in if \<not> falsy cached then (TokenOk (the cached), s)
         else if clientId cfg = [] \<or> clientSecret cfg = [] \<or> tenantId cfg = []
         then (TokenErr notConfiguredError, s)
         else
           (case fetch w (silentRequest cfg refreshToken scopes) s of
              (FetchRejects message, s1) \<Rightarrow>
                (TokenErr (''Silent token acquisition failed: '' @ message), s1)
            | (FetchResolves res, s1) \<Rightarrow>
                if \<not> res_ok res
                then (TokenErr (''Silent token acquisition error ('' @ numberToString (res_status res)
                                  @ ''): '' @ detailOrStatusText res), s1)
                else
                  (case res_json res of
                     JsonRejects message \<Rightarrow>
                       (TokenErr (''Silent token acquisition failed: '' @ message), s1)
                   | JsonResolves data \<Rightarrow>
                       if falsy (access_token data)
                       then (TokenErr ''No access_token in refresh response'', s1)
                       else
                         (let expiresIn = lifetimeOf data
                          in (TokenOk (the (access_token data)),
                              setCachedToken cacheKey (the (access_token data)) expiresIn
                                (clockAtStore w) s1)))))"

definition oboRequest :: "AzureAdConfig \<Rightarrow> string \<Rightarrow> string \<Rightarrow> fetch_request" where
  "oboRequest cfg userToken scopes =
     \<lparr>req_url = tokenUrlOf cfg,
      req_body = [(''client_id'', clientId cfg),
                  (''client_secret'', clientSecret cfg),
                  (''grant_type'', ''urn:ietf:params:oauth:grant-type:jwt-bearer''),
                  (''assertion'', userToken),
                  (''scope'', scopes),
                  (''requested_token_use'', ''on_behalf_of'')]\<rparr>"

definition exchangeTokenOBO ::
  "AzureAdConfig \<Rightarrow> call_env \<Rightarrow> string \<Rightarrow> scopes_arg \<Rightarrow> broker_state
     \<Rightarrow> AzureTokenResult \<times> broker_state" where
  "exchangeTokenOBO cfg w userToken targetScopes s =
     (let scopes = scopesOf targetScopes;
          cacheKey = ''obo:'' @ scopes;
          cached = getCachedToken cacheKey (clockAtLookup w) s
      in if \<not> falsy cached then (TokenOk (the cached), s)
         else if clientId cfg = [] \<or> clientSecret cfg = [] \<or> tenantId cfg = []
         then (TokenErr notConfiguredError, s)
         else
           (case fetch w (oboRequest cfg userToken scopes) s of
              (FetchRejects message, s1) \<Rightarrow>
                (TokenErr (''OBO exchange failed: '' @ message), s1)
            | (FetchResolves res, s1) \<Rightarrow>
                if \<not> res_ok res
                then (TokenErr (''OBO token error ('' @ numberToString (res_status res)
                                  @ ''): '' @ detailOrStatusText res), s1)
                else
                  (case res_json res of
                     JsonRejects message \<Rightarrow>
                       (TokenErr (''OBO exchange failed: '' @ message), s1)
                   | JsonResolves data \<Rightarrow>
                       if falsy (access_token data)
                       then (TokenErr ''No access_token in OBO response'', s1)
                       else
                         (let expiresIn = lifetimeOf data
                          in (TokenOk (the (access_token data)),
                              setCachedToken cacheKey (the (access_token data)) expiresIn
                                (clockAtStore w) s1)))))"

definition OUR_APP_SCOPE :: "AzureAdConfig \<Rightarrow> string" where
  "OUR_APP_SCOPE cfg = ''api://'' @ clientId cfg @ ''/User.Access''"

text \<open>
  The two steps of \<open>acquireDownstreamToken\<close> each meet their own environment: \<open>w1\<close> for
  the silent step, \<open>w2\<close> for the exchange.
\<close>

definition acquireDownstreamToken ::
  "AzureAdConfig \<Rightarrow> call_env \<Rightarrow> call_env \<Rightarrow> string \<Rightarrow> scopes_arg \<Rightarrow> broker_state
     \<Rightarrow> AzureTokenResult \<times> broker_state" where
  "acquireDownstreamToken cfg w1 w2 refreshToken targetScopes s =
     (let (silentResult, s1) =
            acquireTokenSilent cfg w1 refreshToken (ScopeString (OUR_APP_SCOPE cfg)) s
      in if \<not> is_ok silentResult then (silentResult, s1)
         else exchangeTokenOBO cfg w2 (result_accessToken silentResult) targetScopes s1)"

text \<open>
  The combined entry point in the spec's words (section 4.3): call the silent step with
  the own-app scope; on failure hand its error on unchanged; on success call the
  exchange with the resulting token and the downstream scopes, and return its result.
\<close>

definition acquireDownstream_spec ::
  "AzureAdConfig \<Rightarrow> call_env \<Rightarrow> call_env \<Rightarrow> string \<Rightarrow> scopes_arg \<Rightarrow> broker_state
     \<Rightarrow> AzureTokenResult \<times> broker_state" where
  "acquireDownstream_spec cfg w1 w2 refreshCredential downstreamScopes s =
     (case acquireTokenSilent cfg w1 refreshCredential
             (ScopeString (''api://'' @ clientId cfg @ ''/User.Access'')) s of
        (TokenErr err, s1) \<Rightarrow> (TokenErr err, s1)
      | (TokenOk tok, s1) \<Rightarrow> exchangeTokenOBO cfg w2 tok downstreamScopes s1)"

definition isAzureOBOConfigured :: "AzureAdConfig \<Rightarrow> bool" where
  "isAzureOBOConfigured cfg = (clientId cfg \<noteq> [] \<and> clientSecret cfg \<noteq> [] \<and> tenantId cfg \<noteq> [])"

text \<open>
  The module starts with an empty cache, \<open>tokenCache\<close> is not exported, and
  \<open>AZURE_AD_CONFIG\<close> is fixed when the module loads: the states of the module are
  those reached from the empty one by calls under one configuration. Calls are taken
  one after another, each running to its end.
\<close>

definition initialState :: broker_state where
  "initialState = \<lparr>tokenCache = Map.empty, fetchLog = []\<rparr>"

text \<open>The state with the entry under a key taken out of the cache.\<close>

definition dropEntry :: "string \<Rightarrow> broker_state \<Rightarrow> broker_state" where
  "dropEntry cacheKey s = s\<lparr>tokenCache := (tokenCache s)(cacheKey := None)\<rparr>"

inductive reachable :: "AzureAdConfig \<Rightarrow> broker_state \<Rightarrow> bool" for cfg :: AzureAdConfig where
  reachable_init: "reachable cfg initialState"
| reachable_silent:
    "reachable cfg s \<Longrightarrow> reachable cfg (snd (acquireTokenSilent cfg w refreshToken targetScopes s))"
| reachable_obo:
    "reachable cfg s \<Longrightarrow> reachable cfg (snd (exchangeTokenOBO cfg w userToken targetScopes s))"


section \<open>The authorizer\<close>

datatype auth_mode = ModeToken | ModePassword | ModeOidc

record AuthConfig =
  auth_mode :: auth_mode
  auth_token :: "string option"
  auth_password :: "string option"
  allowTailscaleIdentity :: bool
  oidcConfig :: "OidcVerifierConfig option"

record ConnectAuth =
  presented_token :: "string option"
  presented_password :: "string option"
  presented_oidcToken :: "string option"

datatype auth_method = MethodToken | MethodPassword | MethodOidc | MethodTailscale

datatype AuthResult =
    Accepted auth_method "string option"
  | Rejected string

record proxy_identity =
  identity_login :: string
  identity_name :: string

text \<open>
  The context of one connection attempt: whether the observed origin is recognised as
  an internal private-overlay address reaching the service through its own proxy
  hostname, what the identity-proxy lookup yields for the connection (\<open>None\<close> when no
  lookup is supplied or it asserts nobody), and the OIDC verifier when one is supplied.
\<close>

record auth_context =
  overlayOrigin :: bool
  identityLookup :: "proxy_identity option"
  oidcVerifier :: "(string \<Rightarrow> OidcVerifyResult) option"

text \<open>
  Modelled from the spec: the mode-specific check, step 3 of the decision order of the
  authorizer (section 4.2); the source of \<open>authorizeGatewayConnect\<close> (auth.ts) is not
  among the files, only its tests are. \<open>oidcFailure\<close> is the reason the verifier gave in
  step 2, when it was asked and refused. In \<open>oidc\<close> mode that reason is the result, and
  \<open>oidc_token_missing\<close> when there is none.
\<close>

definition modeSpecificCheck :: "AuthConfig \<Rightarrow> ConnectAuth \<Rightarrow> string option \<Rightarrow> AuthResult" where
  "modeSpecificCheck config presented oidcFailure =
     (case auth_mode config of
        ModeToken \<Rightarrow>
          (case auth_token config of
             None \<Rightarrow> Rejected ''token_missing_config''
           | Some expected \<Rightarrow>
               (case presented_token presented of
                  None \<Rightarrow> Rejected ''token_missing''
                | Some given \<Rightarrow>
                    if given = expected then Accepted MethodToken None
                    else Rejected ''token_mismatch''))
      | ModePassword \<Rightarrow>
          (case auth_password config of
             None \<Rightarrow> Rejected ''password_missing_config''
           | Some expected \<Rightarrow>
               (case presented_password presented of
                  None \<Rightarrow> Rejected ''password_missing''
                | Some given \<Rightarrow>
                    if given = expected then Accepted MethodPassword None
                    else Rejected ''password_mismatch''))
      | ModeOidc \<Rightarrow>
          (case oidcFailure of
             None \<Rightarrow> Rejected ''oidc_token_missing''
           | Some reason \<Rightarrow> Rejected reason))"

text \<open>
  Modelled from the spec: \<open>authorize(config, presented, context)\<close> of section 4.2, the
  operation the tests call \<open>authorizeGatewayConnect\<close>; its source (auth.ts) is not among
  the files. The decision order is the spec's: the identity-proxy shortcut, then the
  OIDC check whenever a verifier and an \<open>oidcToken\<close> are both there, then the
  mode-specific check.
\<close>

definition authorize :: "AuthConfig \<Rightarrow> ConnectAuth \<Rightarrow> auth_context \<Rightarrow> AuthResult" where
  "authorize config presented ctx =
     (case (if allowTailscaleIdentity config \<and> overlayOrigin ctx then identityLookup ctx
            else None) of
        Some who \<Rightarrow> Accepted MethodTailscale (Some (identity_login who))
      | None \<Rightarrow>
          (case (oidcVerifier ctx, presented_oidcToken presented) of
             (Some verifier, Some assertion) \<Rightarrow>
               (case verifier assertion of
                  VerifyOk who claims \<Rightarrow> Accepted MethodOidc (Some who)
                | VerifyFail reason \<Rightarrow> modeSpecificCheck config presented (Some reason))
           | _ \<Rightarrow> modeSpecificCheck config presented None))"


text \<open>The \<open>ok\<close> and \<open>method\<close> fields of a result.\<close>

definition methodOf :: "AuthResult \<Rightarrow> auth_method option" where
  "methodOf r = (case r of Accepted m who \<Rightarrow> Some m | Rejected reason \<Rightarrow> None)"


section \<open>Sample inputs\<close>

text \<open>Stand-ins for \<open>jwtVerify\<close>: one that rejects with a given value, one that resolves.\<close>

definition rejecting :: "js_thrown \<Rightarrow> jwt_verify" where
  "rejecting err token opts = Thrown err"

definition resolving :: "JWTPayload \<Rightarrow> jwt_verify" where
  "resolving payload token opts = Verified payload"

definition sampleConfig :: OidcVerifierConfig where
  "sampleConfig =
     \<lparr>issuer = ''https://idp.example.com/'', audience = ''test-client-id'',
      jwksUri = None, userClaim = None, allowedDomains = None, allowedEmails = None\<rparr>"

definition payloadOf :: "(string \<times> json) list \<Rightarrow> JWTPayload" where
  "payloadOf entries = map_of entries"

text \<open>
  \<open>createMockOidcVerifier\<close> of the authorizer's tests: a verifier that refuses with
  \<open>opts.reason ?? "oidc_token_invalid"\<close> when \<open>opts.ok === false\<close>, and else accepts as
  \<open>opts.user ?? "oidc-user"\<close>.
\<close>

record mock_opts =
  mock_user :: "string option"
  mock_ok :: "bool option"
  mock_reason :: "string option"

definition createMockOidcVerifier :: "mock_opts \<Rightarrow> string \<Rightarrow> OidcVerifyResult" where
  "createMockOidcVerifier opts assertion =
     (if mock_ok opts = Some False
      then VerifyFail (case mock_reason opts of None \<Rightarrow> ''oidc_token_invalid'' | Some r \<Rightarrow> r)
      else (let who = (case mock_user opts of None \<Rightarrow> ''oidc-user'' | Some u \<Rightarrow> u)
            in VerifyOk who [''sub'' \<mapsto> JString who]))"

definition refusingVerifier :: "string \<Rightarrow> OidcVerifyResult" where
  "refusingVerifier =
     createMockOidcVerifier
       \<lparr>mock_user = None, mock_ok = Some False, mock_reason = Some ''oidc_token_invalid''\<rparr>"

definition acceptingVerifier :: "string \<Rightarrow> OidcVerifyResult" where
  "acceptingVerifier =
     createMockOidcVerifier \<lparr>mock_user = Some ''oidc-user'', mock_ok = None, mock_reason = None\<rparr>"

definition tokenModeConfig :: "bool \<Rightarrow> AuthConfig" where
  "tokenModeConfig allowTailscale =
     \<lparr>auth_mode = ModeToken, auth_token = Some ''secret'', auth_password = None,
      allowTailscaleIdentity = allowTailscale, oidcConfig = None\<rparr>"

definition presenting :: "string \<Rightarrow> string \<Rightarrow> ConnectAuth" where
  "presenting tok assertion =
     \<lparr>presented_token = Some tok, presented_password = None,
      presented_oidcToken = Some assertion\<rparr>"

text \<open>A direct connection, and one that the overlay network's proxy vouches for.\<close>

definition directContext :: "(string \<Rightarrow> OidcVerifyResult) \<Rightarrow> auth_context" where
  "directContext verifier =
     \<lparr>overlayOrigin = False, identityLookup = None, oidcVerifier = Some verifier\<rparr>"

definition overlayContext :: "(string \<Rightarrow> OidcVerifyResult) \<Rightarrow> auth_context" where
  "overlayContext verifier =
     \<lparr>overlayOrigin = True,
      identityLookup = Some \<lparr>identity_login = ''peter'', identity_name = ''Peter''\<rparr>,
      oidcVerifier = Some verifier\<rparr>"

definition azureConfig :: AzureAdConfig where
  "azureConfig = \<lparr>clientId = ''app-id'', clientSecret = ''s3cr3t'', tenantId = ''tenant-id''\<rparr>"

definition unconfigured :: AzureAdConfig where
  "unconfigured = \<lparr>clientId = ''app-id'', clientSecret = [], tenantId = ''tenant-id''\<rparr>"

text \<open>A token endpoint that grants a token, and one that refuses.\<close>

definition grants :: "string \<Rightarrow> int option \<Rightarrow> fetch_outcome" where
  "grants tok lifetime =
     FetchResolves \<lparr>res_ok = True, res_status = 200, res_statusText = ''OK'', res_text = None,
                    res_json = JsonResolves \<lparr>access_token = Some tok, expires_in = lifetime\<rparr>\<rparr>"

definition refuses :: fetch_outcome where
  "refuses =
     FetchResolves \<lparr>res_ok = False, res_status = 400, res_statusText = ''Bad Request'',
                    res_text = Some ''invalid_grant'',
                    res_json = JsonRejects ''body used already''\<rparr>"

definition envAt :: "int \<Rightarrow> fetch_outcome \<Rightarrow> int \<Rightarrow> call_env" where
  "envAt now outcome later =
     \<lparr>clockAtLookup = now, endpoint = (\<lambda>req. outcome), clockAtStore = later\<rparr>"

text \<open>The module after one exchange for a first user, answered at time 1000.\<close>

definition afterAlice :: broker_state where
  "afterAlice =
     snd (exchangeTokenOBO azureConfig (envAt 0 (grants ''token-of-alice'' (Some 3600)) 1000)
            ''assertion-of-alice'' (ScopeString ''Calendars.Read'') initialState)"

text \<open>The module after one silent acquisition of the own-app token, answered at time 1000.\<close>

definition afterSilent :: broker_state where
  "afterSilent =
     snd (acquireTokenSilent azureConfig (envAt 0 (grants ''own-app-token'' (Some 3600)) 1000)
            ''refresh-token'' (ScopeString ''api://app-id/User.Access'') initialState)"

definition domainConfig :: OidcVerifierConfig where
  "domainConfig = sampleConfig\<lparr>allowedDomains := Some [''mycompany.com'']\<rparr>"

definition emptyDomainsConfig :: OidcVerifierConfig where
  "emptyDomainsConfig = sampleConfig\<lparr>allowedDomains := Some []\<rparr>"

definition otherDomainPayload :: JWTPayload where
  "otherDomainPayload = payloadOf [(''email'', JString ''user@other.com'')]"

definition emailsConfig :: OidcVerifierConfig where
  "emailsConfig = sampleConfig\<lparr>allowedEmails := Some [''admin@example.com'', ''dev@example.com'']\<rparr>"

definition emptyEntryConfig :: OidcVerifierConfig where
  "emptyEntryConfig = sampleConfig\<lparr>allowedEmails := Some [[]]\<rparr>"

definition emptyEmailPayload :: JWTPayload where
  "emptyEmailPayload = payloadOf [(''sub'', JString ''user-1''), (''email'', JString [])]"

definition subOnlyPayload :: JWTPayload where
  "subOnlyPayload = payloadOf [(''sub'', JString ''user-789'')]"

definition upperEmailPayload :: JWTPayload where
  "upperEmailPayload =
     payloadOf [(''sub'', JString ''user-2''), (''email'', JString ''Admin@Example.com'')]"

definition emptyListsConfig :: OidcVerifierConfig where
  "emptyListsConfig = sampleConfig\<lparr>allowedDomains := Some [], allowedEmails := Some []\<rparr>"


section \<open>Properties of the OIDC verifier\<close>

lemma endsWith_iff: "endsWith s t \<longleftrightarrow> (\<exists>pre. s = pre @ t)"
proof
  assume "endsWith s t"
  then have "s = take (length s - length t) s @ t"
    unfolding endsWith_def by (metis append_take_drop_id)
  then show "\<exists>pre. s = pre @ t" ..
next
  assume "\<exists>pre. s = pre @ t"
  then show "endsWith s t" unfolding endsWith_def by auto
qed

lemma extractUserClaim_None_iff:
  "extractUserClaim payload claim = None \<longleftrightarrow>
     (payload claim = None
      \<or> (\<exists>v. payload claim = Some v \<and> (\<forall>s. v \<noteq> JString s))
      \<or> (\<exists>s. payload claim = Some (JString s) \<and> trim s = []))"
  unfolding extractUserClaim_def by (auto split: option.splits json.splits)

lemma extractUserClaim_truthy:
  "falsy (extractUserClaim payload claim) \<longleftrightarrow> extractUserClaim payload claim = None"
  unfolding extractUserClaim_def falsy_def by (auto split: option.splits json.splits)

lemma checkDomainRestriction_iff:
  "checkDomainRestriction (emailOf payload) domains \<longleftrightarrow>
     (\<exists>e d pre. payload ''email'' = Some (JString e) \<and> d \<in> set domains \<and> e = pre @ ''@'' @ d)"
  unfolding checkDomainRestriction_def emailOf_def
  by (auto simp: list_ex_iff endsWith_iff split: option.splits json.splits)

lemma checkEmailAllowlist_iff:
  "checkEmailAllowlist (emailOf payload) emails \<longleftrightarrow>
     (\<exists>e a. payload ''email'' = Some (JString e) \<and> e \<noteq> [] \<and> a \<in> set emails
            \<and> toLowerCase a = toLowerCase e)"
  unfolding checkEmailAllowlist_def emailOf_def
  by (auto simp: list_ex_iff split: option.splits json.splits)

lemma verify_Verified:
  assumes "jwtVerify token (verifyOptions config) = Verified payload"
    and "extractUserClaim payload (userClaimOf config) = Some who"
  shows "verify config jwtVerify token =
     (if hasLength (allowedDomains config)
         \<and> \<not> checkDomainRestriction (emailOf payload) (listOf (allowedDomains config))
      then VerifyFail ''oidc_domain_not_allowed''
      else if hasLength (allowedEmails config)
              \<and> \<not> checkEmailAllowlist (emailOf payload) (listOf (allowedEmails config))
      then VerifyFail ''oidc_email_not_allowed''
      else VerifyOk who payload)"
proof -
  have "\<not> falsy (extractUserClaim payload (userClaimOf config))"
    unfolding extractUserClaim_truthy using assms(2) by simp
  then show ?thesis
    using assms unfolding verify_def by (simp add: Let_def)
qed

text \<open>
  Claim C6. \<open>verify\<close> is a total function into tagged results: when \<open>jwtVerify\<close> rejects,
  the result is a \<open>VerifyFail\<close> whose reason depends on the thrown value's code only.
  The code jose gives an expired token, \<open>ERR_JWT_EXPIRED\<close>, yields \<open>oidc_token_expired\<close>;
  the code of a failed signature check, \<open>ERR_JWS_SIGNATURE_VERIFICATION_FAILED\<close>, yields
  \<open>oidc_signature_invalid\<close>; every other thrown value (the codes of a wrong issuer or
  audience and of a malformed token among them, and a value with no code) yields
  \<open>oidc_token_invalid\<close>.
\<close>

theorem verify_failure_reasons:
  assumes "jwtVerify token (verifyOptions config) = Thrown err"
  shows "(errorCode err = ''ERR_JWT_EXPIRED''
            \<longrightarrow> verify config jwtVerify token = VerifyFail ''oidc_token_expired'')
       \<and> (errorCode err = ''ERR_JWS_SIGNATURE_VERIFICATION_FAILED''
            \<longrightarrow> verify config jwtVerify token = VerifyFail ''oidc_signature_invalid'')
       \<and> (errorCode err \<noteq> ''ERR_JWT_EXPIRED''
            \<and> errorCode err \<noteq> ''ERR_JWS_SIGNATURE_VERIFICATION_FAILED''
            \<longrightarrow> verify config jwtVerify token = VerifyFail ''oidc_token_invalid'')"
  using assms unfolding verify_def by (simp add: Let_def)

theorem verify_failure_reasons_witness:
  "verify sampleConfig (rejecting (ThrownWithCode ''ERR_JWT_EXPIRED'')) ''expired-jwt''
       = VerifyFail ''oidc_token_expired''
   \<and> verify sampleConfig (rejecting (ThrownWithCode ''ERR_JWS_SIGNATURE_VERIFICATION_FAILED''))
         ''forged-jwt'' = VerifyFail ''oidc_signature_invalid''
   \<and> verify sampleConfig (rejecting (ThrownWithCode ''ERR_JWT_CLAIM_VALIDATION_FAILED''))
         ''wrong-audience-jwt'' = VerifyFail ''oidc_token_invalid''
   \<and> verify sampleConfig (rejecting (ThrownWithCode ''ERR_JWS_INVALID'')) ''not-a-jwt''
       = VerifyFail ''oidc_token_invalid''
   \<and> verify sampleConfig (rejecting ThrownOther) ''not-a-jwt'' = VerifyFail ''oidc_token_invalid''"
  using verify_failure_reasons
      [of "rejecting (ThrownWithCode ''ERR_JWT_EXPIRED'')" "''expired-jwt''" sampleConfig
          "ThrownWithCode ''ERR_JWT_EXPIRED''"]
    verify_failure_reasons
      [of "rejecting (ThrownWithCode ''ERR_JWS_SIGNATURE_VERIFICATION_FAILED'')" "''forged-jwt''"
          sampleConfig "ThrownWithCode ''ERR_JWS_SIGNATURE_VERIFICATION_FAILED''"]
    verify_failure_reasons
      [of "rejecting (ThrownWithCode ''ERR_JWT_CLAIM_VALIDATION_FAILED'')"
          "''wrong-audience-jwt''" sampleConfig "ThrownWithCode ''ERR_JWT_CLAIM_VALIDATION_FAILED''"]
    verify_failure_reasons
      [of "rejecting (ThrownWithCode ''ERR_JWS_INVALID'')" "''not-a-jwt''" sampleConfig
          "ThrownWithCode ''ERR_JWS_INVALID''"]
    verify_failure_reasons [of "rejecting ThrownOther" "''not-a-jwt''" sampleConfig ThrownOther]
  by (simp add: rejecting_def errorCode_def)

text \<open>
  Claim C7. \<open>verify\<close> fails with \<open>oidc_user_claim_missing\<close> exactly when \<open>jwtVerify\<close>
  accepted the assertion and the configured user claim (\<open>sub\<close> by default) is absent
  from the payload, is not a string, or is a string that is empty after trimming. The
  allowlists play no part: the check comes after the cryptographic validation and before
  them, so a token that misses the claim and violates an allowlist reports the missing
  claim.
\<close>

theorem user_claim_missing_iff:
  "verify config jwtVerify token = VerifyFail ''oidc_user_claim_missing'' \<longleftrightarrow>
     (\<exists>payload. jwtVerify token (verifyOptions config) = Verified payload
        \<and> (payload (userClaimOf config) = None
           \<or> (\<exists>v. payload (userClaimOf config) = Some v \<and> (\<forall>s. v \<noteq> JString s))
           \<or> (\<exists>s. payload (userClaimOf config) = Some (JString s) \<and> trim s = [])))"
proof (cases "jwtVerify token (verifyOptions config)")
  case (Verified payload)
  then show ?thesis
    unfolding verify_def
    by (simp add: Let_def extractUserClaim_truthy extractUserClaim_None_iff)
next
  case (Thrown err)
  then show ?thesis unfolding verify_def by (simp add: Let_def)
qed

theorem user_claim_missing_iff_witness:
  "verify (sampleConfig\<lparr>allowedDomains := Some [''mycompany.com'']\<rparr>)
       (resolving (payloadOf [(''email'', JString ''user@other.com'')])) ''jwt''
     = VerifyFail ''oidc_user_claim_missing''
   \<and> verify sampleConfig (resolving (payloadOf [(''sub'', JString ''   '')])) ''jwt''
     = VerifyFail ''oidc_user_claim_missing''
   \<and> verify sampleConfig (resolving (payloadOf [(''sub'', JNumber 7)])) ''jwt''
     = VerifyFail ''oidc_user_claim_missing''
   \<and> verify sampleConfig (resolving (payloadOf [(''sub'', JString ''user-123'')])) ''jwt''
     \<noteq> VerifyFail ''oidc_user_claim_missing''"
  using user_claim_missing_iff
      [of "sampleConfig\<lparr>allowedDomains := Some [''mycompany.com'']\<rparr>"
          "resolving (payloadOf [(''email'', JString ''user@other.com'')])" "''jwt''"]
    user_claim_missing_iff
      [of sampleConfig "resolving (payloadOf [(''sub'', JString ''   '')])" "''jwt''"]
    user_claim_missing_iff
      [of sampleConfig "resolving (payloadOf [(''sub'', JNumber 7)])" "''jwt''"]
    user_claim_missing_iff
      [of sampleConfig "resolving (payloadOf [(''sub'', JString ''user-123'')])" "''jwt''"]
  by (simp add: resolving_def payloadOf_def userClaimOf_def sampleConfig_def trim_def
      isWhiteSpace_def)

text \<open>
  Claim C8, as stated: whenever \<open>allowedDomains\<close> is configured, an assertion whose
  \<open>email\<close> does not end with \<open>@\<close> and a configured domain, one with no \<open>email\<close> among
  them, is rejected with \<open>oidc_domain_not_allowed\<close>. Three inputs show otherwise. With
  the list configured as the empty array, an assertion with no \<open>email\<close> is accepted.
  With a domain configured, an assertion that lacks the user claim and carries a
  foreign email is rejected as \<open>oidc_user_claim_missing\<close>, and one that \<open>jwtVerify\<close>
  refuses as expired is rejected as \<open>oidc_token_expired\<close>: the domain check comes after
  both.
\<close>

theorem domain_restriction_counterexample:
  "allowedDomains emptyDomainsConfig = Some []
   \<and> subOnlyPayload ''email'' = None
   \<and> verify emptyDomainsConfig (resolving subOnlyPayload) ''jwt''
       = VerifyOk ''user-789'' subOnlyPayload
   \<and> allowedDomains domainConfig = Some [''mycompany.com'']
   \<and> otherDomainPayload ''email'' = Some (JString ''user@other.com'')
   \<and> verify domainConfig (resolving otherDomainPayload) ''jwt''
       = VerifyFail ''oidc_user_claim_missing''
   \<and> verify domainConfig (rejecting (ThrownWithCode ''ERR_JWT_EXPIRED'')) ''expired-jwt''
       = VerifyFail ''oidc_token_expired''"
  by (simp add: verify_def resolving_def rejecting_def errorCode_def emptyDomainsConfig_def
      domainConfig_def sampleConfig_def subOnlyPayload_def otherDomainPayload_def payloadOf_def
      extractUserClaim_def userClaimOf_def trim_def isWhiteSpace_def falsy_def hasLength_def
      listOf_def emailOf_def Let_def)

text \<open>
  Claim C8, amended. For an assertion that passed the cryptographic validation and
  carries the user claim, under an \<open>allowedDomains\<close> with at least one domain: \<open>verify\<close>
  rejects with \<open>oidc_domain_not_allowed\<close> exactly when the \<open>email\<close> claim is not a string
  that ends with \<open>@\<close> followed by one of the configured domains, code unit for code unit
  (so case matters); it accepts only when the email is such a string; and an assertion
  with no \<open>email\<close> claim, or one that is no string, is rejected with that reason.
\<close>

theorem domain_restriction:
  assumes "jwtVerify token (verifyOptions config) = Verified payload"
    and "extractUserClaim payload (userClaimOf config) = Some who"
    and "allowedDomains config = Some domains"
    and "domains \<noteq> []"
  shows "(verify config jwtVerify token = VerifyFail ''oidc_domain_not_allowed'' \<longleftrightarrow>
            \<not> (\<exists>e d pre. payload ''email'' = Some (JString e) \<and> d \<in> set domains
                          \<and> e = pre @ ''@'' @ d))
       \<and> ((\<exists>u p. verify config jwtVerify token = VerifyOk u p) \<longrightarrow>
            (\<exists>e d pre. payload ''email'' = Some (JString e) \<and> d \<in> set domains
                        \<and> e = pre @ ''@'' @ d))
       \<and> ((\<forall>e. payload ''email'' \<noteq> Some (JString e)) \<longrightarrow>
            verify config jwtVerify token = VerifyFail ''oidc_domain_not_allowed'')"
proof -
  have len: "hasLength (allowedDomains config)" "listOf (allowedDomains config) = domains"
    using assms(3,4) by (simp_all add: hasLength_def listOf_def)
  have "verify config jwtVerify token =
     (if \<not> checkDomainRestriction (emailOf payload) domains
      then VerifyFail ''oidc_domain_not_allowed''
      else if hasLength (allowedEmails config)
              \<and> \<not> checkEmailAllowlist (emailOf payload) (listOf (allowedEmails config))
      then VerifyFail ''oidc_email_not_allowed''
      else VerifyOk who payload)"
    using verify_Verified [of jwtVerify token config payload who] assms(1,2) len by simp
  then show ?thesis
    unfolding checkDomainRestriction_iff by auto
qed

theorem domain_restriction_witness:
  "verify domainConfig (resolving (payloadOf [(''sub'', JString ''user-123'')])) ''jwt''
     = VerifyFail ''oidc_domain_not_allowed''
   \<and> verify domainConfig
       (resolving (payloadOf [(''sub'', JString ''user-123''),
                              (''email'', JString ''user@MyCompany.com'')])) ''jwt''
     = VerifyFail ''oidc_domain_not_allowed''
   \<and> verify domainConfig
       (resolving (payloadOf [(''sub'', JString ''user-123''),
                              (''email'', JString ''user@mycompany.com'')])) ''jwt''
     \<noteq> VerifyFail ''oidc_domain_not_allowed''"
proof -
  have "''user@mycompany.com'' = ''user'' @ ''@'' @ ''mycompany.com''" by simp
  then have m: "\<exists>pre. ''user@mycompany.com'' = pre @ ''@'' @ ''mycompany.com''" by blast
  show ?thesis
    using domain_restriction
        [where jwtVerify = "resolving (payloadOf [(''sub'', JString ''user-123'')])"
           and token = "''jwt''" and config = domainConfig
           and payload = "payloadOf [(''sub'', JString ''user-123'')]"
           and who = "''user-123''" and domains = "[''mycompany.com'']"]
      domain_restriction
        [where jwtVerify = "resolving (payloadOf [(''sub'', JString ''user-123''),
                              (''email'', JString ''user@MyCompany.com'')])"
           and token = "''jwt''" and config = domainConfig
           and payload = "payloadOf [(''sub'', JString ''user-123''),
                              (''email'', JString ''user@MyCompany.com'')]"
           and who = "''user-123''" and domains = "[''mycompany.com'']"]
      domain_restriction
        [where jwtVerify = "resolving (payloadOf [(''sub'', JString ''user-123''),
                              (''email'', JString ''user@mycompany.com'')])"
           and token = "''jwt''" and config = domainConfig
           and payload = "payloadOf [(''sub'', JString ''user-123''),
                              (''email'', JString ''user@mycompany.com'')]"
           and who = "''user-123''" and domains = "[''mycompany.com'']"]
      m
    by (simp add: resolving_def payloadOf_def extractUserClaim_def userClaimOf_def
        domainConfig_def sampleConfig_def trim_def isWhiteSpace_def)
qed

text \<open>
  Claim C9, as stated: under a configured \<open>allowedEmails\<close>, an email that equals one of
  the entries after lower-casing is accepted. The code first tests \<open>!email\<close>, which holds
  for the empty string as well as for a missing claim: with the entry \<open>""\<close> configured
  and the email claim \<open>""\<close>, the claim matches the entry and is rejected all the same.
\<close>

theorem email_allowlist_counterexample:
  "emptyEmailPayload ''email'' = Some (JString [])
   \<and> allowedEmails emptyEntryConfig = Some [[]]
   \<and> toLowerCase [] = toLowerCase []
   \<and> verify emptyEntryConfig (resolving emptyEmailPayload) ''jwt''
       = VerifyFail ''oidc_email_not_allowed''"
  by (simp add: verify_def resolving_def emptyEmailPayload_def emptyEntryConfig_def
      sampleConfig_def payloadOf_def extractUserClaim_def userClaimOf_def trim_def
      isWhiteSpace_def falsy_def hasLength_def listOf_def emailOf_def
      checkEmailAllowlist_def)

text \<open>
  Claim C9, amended. For an assertion that passed the cryptographic validation, carries
  the user claim and was not rejected by the domain check, under a configured
  \<open>allowedEmails\<close> (a list with at least one entry): \<open>verify\<close> accepts exactly when the
  \<open>email\<close> claim is a non-empty string that equals one of the entries after lower-casing
  both, and rejects with \<open>oidc_email_not_allowed\<close> exactly otherwise; a missing, a
  non-string and an empty email are all rejected.
\<close>

theorem email_allowlist:
  assumes "jwtVerify token (verifyOptions config) = Verified payload"
    and "extractUserClaim payload (userClaimOf config) = Some who"
    and "verify config jwtVerify token \<noteq> VerifyFail ''oidc_domain_not_allowed''"
    and "allowedEmails config = Some emails"
    and "emails \<noteq> []"
  shows "(verify config jwtVerify token = VerifyOk who payload \<longleftrightarrow>
            (\<exists>e a. payload ''email'' = Some (JString e) \<and> e \<noteq> [] \<and> a \<in> set emails
                    \<and> toLowerCase a = toLowerCase e))
       \<and> (verify config jwtVerify token = VerifyFail ''oidc_email_not_allowed'' \<longleftrightarrow>
            \<not> (\<exists>e a. payload ''email'' = Some (JString e) \<and> e \<noteq> [] \<and> a \<in> set emails
                      \<and> toLowerCase a = toLowerCase e))"
proof -
  have len: "hasLength (allowedEmails config)" "listOf (allowedEmails config) = emails"
    using assms(4,5) by (simp_all add: hasLength_def listOf_def)
  have v: "verify config jwtVerify token =
     (if hasLength (allowedDomains config)
         \<and> \<not> checkDomainRestriction (emailOf payload) (listOf (allowedDomains config))
      then VerifyFail ''oidc_domain_not_allowed''
      else if \<not> checkEmailAllowlist (emailOf payload) emails
      then VerifyFail ''oidc_email_not_allowed''
      else VerifyOk who payload)"
    using verify_Verified [of jwtVerify token config payload who] assms(1,2) len by simp
  have "verify config jwtVerify token =
     (if \<not> checkEmailAllowlist (emailOf payload) emails
      then VerifyFail ''oidc_email_not_allowed''
      else VerifyOk who payload)"
    using v assms(3) by (simp split: if_splits)
  then show ?thesis
    unfolding checkEmailAllowlist_iff by auto
qed

theorem email_allowlist_witness:
  "verify emailsConfig (resolving upperEmailPayload) ''jwt'' = VerifyOk ''user-2'' upperEmailPayload
   \<and> verify emailsConfig (resolving subOnlyPayload) ''jwt'' = VerifyFail ''oidc_email_not_allowed''"
proof -
  have emails: "allowedEmails emailsConfig = Some [''admin@example.com'', ''dev@example.com'']"
    "[''admin@example.com'', ''dev@example.com''] \<noteq> []"
    by (simp_all add: emailsConfig_def)
  have res: "resolving upperEmailPayload ''jwt'' (verifyOptions emailsConfig) = Verified upperEmailPayload"
    "resolving subOnlyPayload ''jwt'' (verifyOptions emailsConfig) = Verified subOnlyPayload"
    by (simp_all add: resolving_def)
  have who: "extractUserClaim upperEmailPayload (userClaimOf emailsConfig) = Some ''user-2''"
    "extractUserClaim subOnlyPayload (userClaimOf emailsConfig) = Some ''user-789''"
    by (simp_all add: extractUserClaim_def upperEmailPayload_def subOnlyPayload_def payloadOf_def
        userClaimOf_def emailsConfig_def sampleConfig_def trim_def isWhiteSpace_def)
  have nd: "verify emailsConfig (resolving upperEmailPayload) ''jwt''
              \<noteq> VerifyFail ''oidc_domain_not_allowed''"
    "verify emailsConfig (resolving subOnlyPayload) ''jwt''
              \<noteq> VerifyFail ''oidc_domain_not_allowed''"
    using verify_Verified [of "resolving upperEmailPayload" "''jwt''" emailsConfig
        upperEmailPayload "''user-2''"]
      verify_Verified [of "resolving subOnlyPayload" "''jwt''" emailsConfig
        subOnlyPayload "''user-789''"] res who
    by (simp_all add: hasLength_def emailsConfig_def sampleConfig_def)
  have lower: "toLowerCase ''admin@example.com'' = toLowerCase ''Admin@Example.com''"
    by code_simp
  have member: "\<exists>e a. upperEmailPayload ''email'' = Some (JString e) \<and> e \<noteq> []
      \<and> a \<in> set [''admin@example.com'', ''dev@example.com''] \<and> toLowerCase a = toLowerCase e"
    by (rule exI [of _ "''Admin@Example.com''"], rule exI [of _ "''admin@example.com''"])
      (simp add: upperEmailPayload_def payloadOf_def lower)
  have absent: "\<not> (\<exists>e a. subOnlyPayload ''email'' = Some (JString e) \<and> e \<noteq> []
      \<and> a \<in> set [''admin@example.com'', ''dev@example.com''] \<and> toLowerCase a = toLowerCase e)"
    by (simp add: subOnlyPayload_def payloadOf_def)
  show ?thesis
    using email_allowlist [of "resolving upperEmailPayload" "''jwt''" emailsConfig
        upperEmailPayload "''user-2''" "[''admin@example.com'', ''dev@example.com'']"]
      email_allowlist [of "resolving subOnlyPayload" "''jwt''" emailsConfig
        subOnlyPayload "''user-789''" "[''admin@example.com'', ''dev@example.com'']"]
      emails res who nd member absent
    by blast
qed

text \<open>
  Claim C10. An \<open>allowedDomains\<close> or \<open>allowedEmails\<close> that is present but empty restricts
  nothing: \<open>verify\<close> gives the same result as with the list not configured, for every
  assertion. So an assertion that passed the cryptographic validation, carries the user
  claim and has no \<open>email\<close> claim is accepted when both lists are empty arrays.
\<close>

theorem empty_allowlist_no_restriction:
  "verify (config\<lparr>allowedDomains := Some []\<rparr>) jwtVerify token
     = verify (config\<lparr>allowedDomains := None\<rparr>) jwtVerify token
   \<and> verify (config\<lparr>allowedEmails := Some []\<rparr>) jwtVerify token
     = verify (config\<lparr>allowedEmails := None\<rparr>) jwtVerify token
   \<and> (jwtVerify token (verifyOptions config) = Verified payload
        \<and> extractUserClaim payload (userClaimOf config) = Some who
        \<and> allowedDomains config = Some [] \<and> allowedEmails config = Some []
        \<and> payload ''email'' = None
      \<longrightarrow> verify config jwtVerify token = VerifyOk who payload)"
proof -
  have a: "verify (config\<lparr>allowedDomains := Some []\<rparr>) jwtVerify token
     = verify (config\<lparr>allowedDomains := None\<rparr>) jwtVerify token"
    by (simp add: verify_def verifyOptions_def normalizedIssuer_def userClaimOf_def
        hasLength_def Let_def split: jwt_outcome.splits)
  have b: "verify (config\<lparr>allowedEmails := Some []\<rparr>) jwtVerify token
     = verify (config\<lparr>allowedEmails := None\<rparr>) jwtVerify token"
    by (simp add: verify_def verifyOptions_def normalizedIssuer_def userClaimOf_def
        hasLength_def Let_def split: jwt_outcome.splits)
  have c: "verify config jwtVerify token = VerifyOk who payload"
    if "jwtVerify token (verifyOptions config) = Verified payload"
      and "extractUserClaim payload (userClaimOf config) = Some who"
      and "allowedDomains config = Some []" and "allowedEmails config = Some []"
    using verify_Verified [of jwtVerify token config payload who] that
    by (simp add: hasLength_def)
  show ?thesis using a b c by blast
qed

theorem empty_allowlist_no_restriction_witness:
  "verify emptyListsConfig (resolving subOnlyPayload) ''jwt'' = VerifyOk ''user-789'' subOnlyPayload"
proof -
  have "resolving subOnlyPayload ''jwt'' (verifyOptions emptyListsConfig) = Verified subOnlyPayload
      \<and> extractUserClaim subOnlyPayload (userClaimOf emptyListsConfig) = Some ''user-789''
      \<and> allowedDomains emptyListsConfig = Some [] \<and> allowedEmails emptyListsConfig = Some []
      \<and> subOnlyPayload ''email'' = None"
    by (simp add: resolving_def extractUserClaim_def subOnlyPayload_def payloadOf_def
        userClaimOf_def emptyListsConfig_def sampleConfig_def trim_def isWhiteSpace_def)
  then show ?thesis
    using empty_allowlist_no_restriction [of emptyListsConfig "resolving subOnlyPayload" "''jwt''"
        subOnlyPayload "''user-789''"]
    by blast
qed


section \<open>Properties of the token broker\<close>

lemma acquireTokenSilent_hit:
  assumes "getCachedToken (''silent:'' @ scopesOf sc) (clockAtLookup w) s = Some tok" and "tok \<noteq> []"
  shows "acquireTokenSilent cfg w rt sc s = (TokenOk tok, s)"
  using assms by (simp add: acquireTokenSilent_def falsy_def Let_def)

lemma exchangeTokenOBO_hit:
  assumes "getCachedToken (''obo:'' @ scopesOf sc) (clockAtLookup w) s = Some tok" and "tok \<noteq> []"
  shows "exchangeTokenOBO cfg w ut sc s = (TokenOk tok, s)"
  using assms by (simp add: exchangeTokenOBO_def falsy_def Let_def)

lemma acquireTokenSilent_cache_step:
  assumes "tokenCache (snd (acquireTokenSilent cfg w rt sc s)) k = Some e"
  shows "tokenCache s k = Some e \<or> (isAzureOBOConfigured cfg \<and> accessToken e \<noteq> [])"
  using assms
  by (auto simp: acquireTokenSilent_def Let_def fetch_def setCachedToken_def falsy_def
      isAzureOBOConfigured_def
      split: if_splits fetch_outcome.splits json_outcome.splits option.splits)

lemma exchangeTokenOBO_cache_step:
  assumes "tokenCache (snd (exchangeTokenOBO cfg w ut sc s)) k = Some e"
  shows "tokenCache s k = Some e \<or> (isAzureOBOConfigured cfg \<and> accessToken e \<noteq> [])"
  using assms
  by (auto simp: exchangeTokenOBO_def Let_def fetch_def setCachedToken_def falsy_def
      isAzureOBOConfigured_def
      split: if_splits fetch_outcome.splits json_outcome.splits option.splits)

lemma reachable_cache:
  assumes "reachable cfg s" and "tokenCache s k = Some e"
  shows "isAzureOBOConfigured cfg \<and> accessToken e \<noteq> []"
  using assms
proof (induction arbitrary: k e rule: reachable.induct)
  case reachable_init
  then show ?case by (simp add: initialState_def)
next
  case (reachable_silent s w refreshToken targetScopes)
  then show ?case using acquireTokenSilent_cache_step by blast
next
  case (reachable_obo s w userToken targetScopes)
  then show ?case using exchangeTokenOBO_cache_step by blast
qed

text \<open>
  Claim C5. In every state of the module, when the client id, the client secret or the
  tenant id is empty, \<open>acquireTokenSilent\<close> and \<open>exchangeTokenOBO\<close> return the
  not-configured error and leave the state as it is: no request is added to the log of
  requests sent to the token endpoint (which is empty, no earlier call having sent one
  either). The cache is read before the configuration is tested, but under such a
  configuration nothing has ever been stored in it.
\<close>

theorem not_configured_error:
  assumes "reachable cfg s"
    and "clientId cfg = [] \<or> clientSecret cfg = [] \<or> tenantId cfg = []"
  shows "acquireTokenSilent cfg w refreshToken targetScopes s = (TokenErr notConfiguredError, s)
       \<and> exchangeTokenOBO cfg w userToken targetScopes s = (TokenErr notConfiguredError, s)
       \<and> fetchLog s = []"
proof -
  have empty: "tokenCache s k = None" for k
    using reachable_cache [OF assms(1), of k] assms(2)
    by (cases "tokenCache s k") (auto simp: isAzureOBOConfigured_def)
  have miss: "getCachedToken k now s = None" for k now
    by (simp add: getCachedToken_def empty)
  have nolog: "fetchLog s = []"
    using assms
  proof (induction rule: reachable.induct)
    case reachable_init
    then show ?case by (simp add: initialState_def)
  next
    case (reachable_silent s w refreshToken targetScopes)
    then show ?case
      by (auto simp: acquireTokenSilent_def Let_def falsy_def split: if_splits)
  next
    case (reachable_obo s w userToken targetScopes)
    then show ?case
      by (auto simp: exchangeTokenOBO_def Let_def falsy_def split: if_splits)
  qed
  show ?thesis
    using assms(2) nolog
    by (simp add: acquireTokenSilent_def exchangeTokenOBO_def miss falsy_def Let_def)
qed

theorem not_configured_error_witness:
  "acquireTokenSilent unconfigured (envAt 0 (grants ''never-asked'' None) 1) ''refresh-token''
       (ScopeString ''api://app-id/User.Access'') initialState
     = (TokenErr notConfiguredError, initialState)
   \<and> exchangeTokenOBO unconfigured (envAt 0 (grants ''never-asked'' None) 1) ''assertion''
       (ScopeArray [''Calendars.Read'', ''Mail.Read'']) initialState
     = (TokenErr notConfiguredError, initialState)"
proof -
  have "clientId unconfigured = [] \<or> clientSecret unconfigured = [] \<or> tenantId unconfigured = []"
    by (simp add: unconfigured_def)
  then show ?thesis
    using not_configured_error [OF reachable_init, of unconfigured] by blast
qed

lemma exchangeTokenOBO_ok_entry:
  assumes "exchangeTokenOBO cfg w ut sc s = (TokenOk tok, s1)"
  shows "\<exists>e. tokenCache s1 (''obo:'' @ scopesOf sc) = Some e \<and> accessToken e = tok \<and> tok \<noteq> []"
  using assms
  by (auto simp: exchangeTokenOBO_def Let_def fetch_def setCachedToken_def falsy_def
      getCachedToken_def
      split: if_splits fetch_outcome.splits json_outcome.splits option.splits)

lemma afterAlice_eq:
  "exchangeTokenOBO azureConfig (envAt 0 (grants ''token-of-alice'' (Some 3600)) 1000)
       ''assertion-of-alice'' (ScopeString ''Calendars.Read'') initialState
   = (TokenOk ''token-of-alice'',
      \<lparr>tokenCache = [''obo:Calendars.Read'' \<mapsto> \<lparr>accessToken = ''token-of-alice'', expiresAt = 3601000\<rparr>],
       fetchLog = [oboRequest azureConfig ''assertion-of-alice'' ''Calendars.Read'']\<rparr>)"
  by (simp add: exchangeTokenOBO_def Let_def fetch_def setCachedToken_def falsy_def
      getCachedToken_def initialState_def azureConfig_def envAt_def grants_def scopesOf_def
      lifetimeOf_def)

lemma afterSilent_state:
  "afterSilent =
     \<lparr>tokenCache = [''silent:api://app-id/User.Access'' \<mapsto>
                       \<lparr>accessToken = ''own-app-token'', expiresAt = 3601000\<rparr>],
      fetchLog = [silentRequest azureConfig ''refresh-token'' ''api://app-id/User.Access'']\<rparr>"
  by (simp add: afterSilent_def acquireTokenSilent_def Let_def fetch_def setCachedToken_def
      falsy_def getCachedToken_def initialState_def azureConfig_def envAt_def grants_def
      scopesOf_def lifetimeOf_def)

lemma afterAlice_state:
  "afterAlice =
     \<lparr>tokenCache = [''obo:Calendars.Read'' \<mapsto> \<lparr>accessToken = ''token-of-alice'', expiresAt = 3601000\<rparr>],
      fetchLog = [oboRequest azureConfig ''assertion-of-alice'' ''Calendars.Read'']\<rparr>"
  unfolding afterAlice_def afterAlice_eq by simp

text \<open>
  Claim C2. The cache of \<open>exchangeTokenOBO\<close> is keyed by the scope string alone. When a
  call for some assertion succeeded with token \<open>tok\<close>, and a later call asks for the same
  scope string in a state that still holds the entry the first call left, fresh at the
  later call's time, then the later call returns \<open>tok\<close> whatever its own assertion is, and
  sends nothing to the token endpoint: the state, with its log of requests, is unchanged.
\<close>

theorem obo_cache_ignores_assertion:
  assumes "exchangeTokenOBO cfg w1 assertion1 scopes1 s = (TokenOk tok, s1)"
    and "scopesOf scopes2 = scopesOf scopes1"
    and "tokenCache s2 (''obo:'' @ scopesOf scopes1) = tokenCache s1 (''obo:'' @ scopesOf scopes1)"
    and "tokenCache s1 (''obo:'' @ scopesOf scopes1) = Some entry"
    and "expiresAt entry > clockAtLookup w2 + TOKEN_EXPIRY_BUFFER_MS"
  shows "exchangeTokenOBO cfg w2 assertion2 scopes2 s2 = (TokenOk tok, s2)
       \<and> fetchLog (snd (exchangeTokenOBO cfg w2 assertion2 scopes2 s2)) = fetchLog s2"
proof -
  obtain e where e: "tokenCache s1 (''obo:'' @ scopesOf scopes1) = Some e"
      "accessToken e = tok" "tok \<noteq> []"
    using exchangeTokenOBO_ok_entry [OF assms(1)] by blast
  have "e = entry" using e(1) assms(4) by simp
  then have "getCachedToken (''obo:'' @ scopesOf scopes2) (clockAtLookup w2) s2 = Some tok"
    using assms(2,3,4,5) e(2) by (simp add: getCachedToken_def)
  then have "exchangeTokenOBO cfg w2 assertion2 scopes2 s2 = (TokenOk tok, s2)"
    using e(3) by (rule exchangeTokenOBO_hit)
  then show ?thesis by simp
qed

theorem obo_cache_ignores_assertion_witness:
  "exchangeTokenOBO azureConfig (envAt 60000 (grants ''token-of-bob'' None) 61000)
       ''assertion-of-bob'' (ScopeString ''Calendars.Read'') afterAlice
     = (TokenOk ''token-of-alice'', afterAlice)"
proof -
  have first: "exchangeTokenOBO azureConfig (envAt 0 (grants ''token-of-alice'' (Some 3600)) 1000)
       ''assertion-of-alice'' (ScopeString ''Calendars.Read'') initialState
     = (TokenOk ''token-of-alice'', afterAlice)"
    unfolding afterAlice_def afterAlice_eq by simp
  have entry: "tokenCache afterAlice (''obo:'' @ scopesOf (ScopeString ''Calendars.Read''))
      = Some \<lparr>accessToken = ''token-of-alice'', expiresAt = 3601000\<rparr>"
    unfolding afterAlice_def afterAlice_eq by (simp add: scopesOf_def)
  have fresh: "expiresAt \<lparr>accessToken = ''token-of-alice'', expiresAt = 3601000\<rparr>
      > clockAtLookup (envAt 60000 (grants ''token-of-bob'' None) 61000) + TOKEN_EXPIRY_BUFFER_MS"
    by (simp add: envAt_def TOKEN_EXPIRY_BUFFER_MS_def)
  show ?thesis
    using obo_cache_ignores_assertion [OF first refl refl entry fresh] by simp
qed

lemma silent_from_cache:
  assumes "acquireTokenSilent cfg w rt sc s = (TokenOk tok, s')" and "fetchLog s' = fetchLog s"
  shows "\<exists>e. tokenCache s (''silent:'' @ scopesOf sc) = Some e \<and> accessToken e = tok
            \<and> expiresAt e > clockAtLookup w + TOKEN_EXPIRY_BUFFER_MS"
  using assms
  by (auto simp: acquireTokenSilent_def Let_def fetch_def setCachedToken_def falsy_def
      getCachedToken_def
      split: if_splits fetch_outcome.splits json_outcome.splits option.splits)

lemma obo_from_cache:
  assumes "exchangeTokenOBO cfg w ut sc s = (TokenOk tok, s')" and "fetchLog s' = fetchLog s"
  shows "\<exists>e. tokenCache s (''obo:'' @ scopesOf sc) = Some e \<and> accessToken e = tok
            \<and> expiresAt e > clockAtLookup w + TOKEN_EXPIRY_BUFFER_MS"
  using assms
  by (auto simp: exchangeTokenOBO_def Let_def fetch_def setCachedToken_def falsy_def
      getCachedToken_def
      split: if_splits fetch_outcome.splits json_outcome.splits option.splits)

lemma stale_miss:
  assumes "tokenCache s k = Some e" and "expiresAt e \<le> now + TOKEN_EXPIRY_BUFFER_MS"
  shows "getCachedToken k now s = None" and "getCachedToken k now (dropEntry k s) = None"
  using assms by (simp_all add: getCachedToken_def dropEntry_def)

lemma silent_stale:
  assumes "isAzureOBOConfigured cfg"
    and "getCachedToken (''silent:'' @ scopesOf sc) (clockAtLookup w) s = None"
  shows "fetchLog (snd (acquireTokenSilent cfg w rt sc s))
           = fetchLog s @ [silentRequest cfg rt (scopesOf sc)]"
    and "endpoint w (silentRequest cfg rt (scopesOf sc)) = FetchResolves res \<Longrightarrow> res_ok res
         \<Longrightarrow> res_json res = JsonResolves data \<Longrightarrow> access_token data = Some tok \<Longrightarrow> tok \<noteq> []
         \<Longrightarrow> acquireTokenSilent cfg w rt sc s =
               (TokenOk tok,
                \<lparr>tokenCache = (tokenCache s)(''silent:'' @ scopesOf sc \<mapsto>
                     \<lparr>accessToken = tok, expiresAt = clockAtStore w + lifetimeOf data * 1000\<rparr>),
                 fetchLog = fetchLog s @ [silentRequest cfg rt (scopesOf sc)]\<rparr>)"
  using assms
  by (auto simp: acquireTokenSilent_def Let_def fetch_def setCachedToken_def falsy_def
      isAzureOBOConfigured_def
      split: if_splits fetch_outcome.splits json_outcome.splits option.splits)

lemma silent_result_cache_free:
  assumes "getCachedToken (''silent:'' @ scopesOf sc) (clockAtLookup w) s = None"
    and "getCachedToken (''silent:'' @ scopesOf sc) (clockAtLookup w) s2 = None"
  shows "fst (acquireTokenSilent cfg w rt sc s) = fst (acquireTokenSilent cfg w rt sc s2)"
  using assms
  by (auto simp: acquireTokenSilent_def Let_def fetch_def falsy_def
      split: if_splits fetch_outcome.splits json_outcome.splits option.splits)


lemma obo_stale:
  assumes "isAzureOBOConfigured cfg"
    and "getCachedToken (''obo:'' @ scopesOf sc) (clockAtLookup w) s = None"
  shows "fetchLog (snd (exchangeTokenOBO cfg w ut sc s))
           = fetchLog s @ [oboRequest cfg ut (scopesOf sc)]"
    and "endpoint w (oboRequest cfg ut (scopesOf sc)) = FetchResolves res \<Longrightarrow> res_ok res
         \<Longrightarrow> res_json res = JsonResolves data \<Longrightarrow> access_token data = Some tok \<Longrightarrow> tok \<noteq> []
         \<Longrightarrow> exchangeTokenOBO cfg w ut sc s =
               (TokenOk tok,
                \<lparr>tokenCache = (tokenCache s)(''obo:'' @ scopesOf sc \<mapsto>
                     \<lparr>accessToken = tok, expiresAt = clockAtStore w + lifetimeOf data * 1000\<rparr>),
                 fetchLog = fetchLog s @ [oboRequest cfg ut (scopesOf sc)]\<rparr>)"
  using assms
  by (auto simp: exchangeTokenOBO_def Let_def fetch_def setCachedToken_def falsy_def
      isAzureOBOConfigured_def
      split: if_splits fetch_outcome.splits json_outcome.splits option.splits)

lemma obo_result_cache_free:
  assumes "getCachedToken (''obo:'' @ scopesOf sc) (clockAtLookup w) s = None"
    and "getCachedToken (''obo:'' @ scopesOf sc) (clockAtLookup w) s2 = None"
  shows "fst (exchangeTokenOBO cfg w ut sc s) = fst (exchangeTokenOBO cfg w ut sc s2)"
  using assms
  by (auto simp: exchangeTokenOBO_def Let_def fetch_def falsy_def
      split: if_splits fetch_outcome.splits json_outcome.splits option.splits)

lemma fresh_hit:
  assumes "tokenCache s k = Some e" and "expiresAt e > now + TOKEN_EXPIRY_BUFFER_MS"
  shows "getCachedToken k now s = Some (accessToken e)"
  using assms by (simp add: getCachedToken_def)

text \<open>
  Claim C3. In every state of the module, for \<open>acquireTokenSilent\<close> (key \<open>silent:\<close> plus
  the scopes) and for \<open>exchangeTokenOBO\<close> (key \<open>obo:\<close> plus the scopes) alike: a call that
  succeeds without sending a request returns the token of an entry whose \<open>expiresAt\<close> is
  more than the five-minute buffer after the time of the call, and such an entry is
  returned; an entry whose \<open>expiresAt\<close> is at most the buffer after that time is treated
  as absent (the result is the one the call gives with the entry taken out), exactly one
  request goes to the token endpoint, and when the endpoint grants a token the entry is
  replaced under the same key by the new token, expiring its lifetime after the time of
  the store, all other entries staying as they are.
\<close>

theorem cache_expiry_buffer:
  assumes "reachable cfg s"
  shows "(\<forall>tok s'. acquireTokenSilent cfg w refreshToken scopes s = (TokenOk tok, s')
                    \<and> fetchLog s' = fetchLog s \<longrightarrow>
            (\<exists>e. tokenCache s (''silent:'' @ scopesOf scopes) = Some e \<and> accessToken e = tok
                 \<and> expiresAt e > clockAtLookup w + TOKEN_EXPIRY_BUFFER_MS))
       \<and> (\<forall>e. tokenCache s (''silent:'' @ scopesOf scopes) = Some e
                \<and> expiresAt e > clockAtLookup w + TOKEN_EXPIRY_BUFFER_MS \<longrightarrow>
            acquireTokenSilent cfg w refreshToken scopes s = (TokenOk (accessToken e), s))
       \<and> (\<forall>e. tokenCache s (''silent:'' @ scopesOf scopes) = Some e
                \<and> expiresAt e \<le> clockAtLookup w + TOKEN_EXPIRY_BUFFER_MS \<longrightarrow>
            fst (acquireTokenSilent cfg w refreshToken scopes s)
              = fst (acquireTokenSilent cfg w refreshToken scopes
                       (dropEntry (''silent:'' @ scopesOf scopes) s))
            \<and> fetchLog (snd (acquireTokenSilent cfg w refreshToken scopes s))
              = fetchLog s @ [silentRequest cfg refreshToken (scopesOf scopes)]
            \<and> (\<forall>res data tok.
                  endpoint w (silentRequest cfg refreshToken (scopesOf scopes)) = FetchResolves res
                  \<and> res_ok res \<and> res_json res = JsonResolves data
                  \<and> access_token data = Some tok \<and> tok \<noteq> [] \<longrightarrow>
                  acquireTokenSilent cfg w refreshToken scopes s =
                    (TokenOk tok,
                     \<lparr>tokenCache = (tokenCache s)(''silent:'' @ scopesOf scopes \<mapsto>
                        \<lparr>accessToken = tok,
                         expiresAt = clockAtStore w + lifetimeOf data * 1000\<rparr>),
                      fetchLog = fetchLog s @ [silentRequest cfg refreshToken (scopesOf scopes)]\<rparr>)))
       \<and> (\<forall>tok s'. exchangeTokenOBO cfg w userToken scopes s = (TokenOk tok, s')
                    \<and> fetchLog s' = fetchLog s \<longrightarrow>
            (\<exists>e. tokenCache s (''obo:'' @ scopesOf scopes) = Some e \<and> accessToken e = tok
                 \<and> expiresAt e > clockAtLookup w + TOKEN_EXPIRY_BUFFER_MS))
       \<and> (\<forall>e. tokenCache s (''obo:'' @ scopesOf scopes) = Some e
                \<and> expiresAt e > clockAtLookup w + TOKEN_EXPIRY_BUFFER_MS \<longrightarrow>
            exchangeTokenOBO cfg w userToken scopes s = (TokenOk (accessToken e), s))
       \<and> (\<forall>e. tokenCache s (''obo:'' @ scopesOf scopes) = Some e
                \<and> expiresAt e \<le> clockAtLookup w + TOKEN_EXPIRY_BUFFER_MS \<longrightarrow>
            fst (exchangeTokenOBO cfg w userToken scopes s)
              = fst (exchangeTokenOBO cfg w userToken scopes
                       (dropEntry (''obo:'' @ scopesOf scopes) s))
            \<and> fetchLog (snd (exchangeTokenOBO cfg w userToken scopes s))
              = fetchLog s @ [oboRequest cfg userToken (scopesOf scopes)]
            \<and> (\<forall>res data tok.
                  endpoint w (oboRequest cfg userToken (scopesOf scopes)) = FetchResolves res
                  \<and> res_ok res \<and> res_json res = JsonResolves data
                  \<and> access_token data = Some tok \<and> tok \<noteq> [] \<longrightarrow>
                  exchangeTokenOBO cfg w userToken scopes s =
                    (TokenOk tok,
                     \<lparr>tokenCache = (tokenCache s)(''obo:'' @ scopesOf scopes \<mapsto>
                        \<lparr>accessToken = tok,
                         expiresAt = clockAtStore w + lifetimeOf data * 1000\<rparr>),
                      fetchLog = fetchLog s @ [oboRequest cfg userToken (scopesOf scopes)]\<rparr>)))"
proof -
  have a1: "\<forall>tok s'. acquireTokenSilent cfg w refreshToken scopes s = (TokenOk tok, s')
                    \<and> fetchLog s' = fetchLog s \<longrightarrow>
            (\<exists>e. tokenCache s (''silent:'' @ scopesOf scopes) = Some e \<and> accessToken e = tok
                 \<and> expiresAt e > clockAtLookup w + TOKEN_EXPIRY_BUFFER_MS)"
    using silent_from_cache by blast
  have b1: "\<forall>tok s'. exchangeTokenOBO cfg w userToken scopes s = (TokenOk tok, s')
                    \<and> fetchLog s' = fetchLog s \<longrightarrow>
            (\<exists>e. tokenCache s (''obo:'' @ scopesOf scopes) = Some e \<and> accessToken e = tok
                 \<and> expiresAt e > clockAtLookup w + TOKEN_EXPIRY_BUFFER_MS)"
    using obo_from_cache by blast
  have a2: "acquireTokenSilent cfg w refreshToken scopes s = (TokenOk (accessToken e), s)"
    if "tokenCache s (''silent:'' @ scopesOf scopes) = Some e"
      and "expiresAt e > clockAtLookup w + TOKEN_EXPIRY_BUFFER_MS" for e
    using acquireTokenSilent_hit [OF fresh_hit [OF that]] reachable_cache [OF assms that(1)]
    by simp
  have b2: "exchangeTokenOBO cfg w userToken scopes s = (TokenOk (accessToken e), s)"
    if "tokenCache s (''obo:'' @ scopesOf scopes) = Some e"
      and "expiresAt e > clockAtLookup w + TOKEN_EXPIRY_BUFFER_MS" for e
    using exchangeTokenOBO_hit [OF fresh_hit [OF that]] reachable_cache [OF assms that(1)]
    by simp
  have a3: "fst (acquireTokenSilent cfg w refreshToken scopes s)
              = fst (acquireTokenSilent cfg w refreshToken scopes
                       (dropEntry (''silent:'' @ scopesOf scopes) s))
            \<and> fetchLog (snd (acquireTokenSilent cfg w refreshToken scopes s))
              = fetchLog s @ [silentRequest cfg refreshToken (scopesOf scopes)]
            \<and> (\<forall>res data tok.
                  endpoint w (silentRequest cfg refreshToken (scopesOf scopes)) = FetchResolves res
                  \<and> res_ok res \<and> res_json res = JsonResolves data
                  \<and> access_token data = Some tok \<and> tok \<noteq> [] \<longrightarrow>
                  acquireTokenSilent cfg w refreshToken scopes s =
                    (TokenOk tok,
                     \<lparr>tokenCache = (tokenCache s)(''silent:'' @ scopesOf scopes \<mapsto>
                        \<lparr>accessToken = tok,
                         expiresAt = clockAtStore w + lifetimeOf data * 1000\<rparr>),
                      fetchLog = fetchLog s @ [silentRequest cfg refreshToken (scopesOf scopes)]\<rparr>))"
    if "tokenCache s (''silent:'' @ scopesOf scopes) = Some e"
      and "expiresAt e \<le> clockAtLookup w + TOKEN_EXPIRY_BUFFER_MS" for e
  proof -
    have conf: "isAzureOBOConfigured cfg"
      using reachable_cache [OF assms that(1)] by simp
    note miss = stale_miss [OF that]
    show ?thesis
      using silent_result_cache_free [OF miss] silent_stale [OF conf miss(1)]
      by blast
  qed
  have b3: "fst (exchangeTokenOBO cfg w userToken scopes s)
              = fst (exchangeTokenOBO cfg w userToken scopes
                       (dropEntry (''obo:'' @ scopesOf scopes) s))
            \<and> fetchLog (snd (exchangeTokenOBO cfg w userToken scopes s))
              = fetchLog s @ [oboRequest cfg userToken (scopesOf scopes)]
            \<and> (\<forall>res data tok.
                  endpoint w (oboRequest cfg userToken (scopesOf scopes)) = FetchResolves res
                  \<and> res_ok res \<and> res_json res = JsonResolves data
                  \<and> access_token data = Some tok \<and> tok \<noteq> [] \<longrightarrow>
                  exchangeTokenOBO cfg w userToken scopes s =
                    (TokenOk tok,
                     \<lparr>tokenCache = (tokenCache s)(''obo:'' @ scopesOf scopes \<mapsto>
                        \<lparr>accessToken = tok,
                         expiresAt = clockAtStore w + lifetimeOf data * 1000\<rparr>),
                      fetchLog = fetchLog s @ [oboRequest cfg userToken (scopesOf scopes)]\<rparr>))"
    if "tokenCache s (''obo:'' @ scopesOf scopes) = Some e"
      and "expiresAt e \<le> clockAtLookup w + TOKEN_EXPIRY_BUFFER_MS" for e
  proof -
    have conf: "isAzureOBOConfigured cfg"
      using reachable_cache [OF assms that(1)] by simp
    note miss = stale_miss [OF that]
    show ?thesis
      using obo_result_cache_free [OF miss] obo_stale [OF conf miss(1)]
      by blast
  qed
  show ?thesis
    using a1 a2 a3 b1 b2 b3 by blast
qed

theorem cache_expiry_buffer_witness:
  "acquireTokenSilent azureConfig (envAt 3301000 (grants ''renewed-token'' None) 3302000)
       ''refresh-token'' (ScopeString ''api://app-id/User.Access'') afterSilent
     = (TokenOk ''renewed-token'',
        \<lparr>tokenCache = [''silent:api://app-id/User.Access'' \<mapsto>
                          \<lparr>accessToken = ''renewed-token'', expiresAt = 6902000\<rparr>],
         fetchLog = [silentRequest azureConfig ''refresh-token'' ''api://app-id/User.Access'',
                     silentRequest azureConfig ''refresh-token'' ''api://app-id/User.Access'']\<rparr>)
   \<and> acquireTokenSilent azureConfig (envAt 3300999 (grants ''renewed-token'' None) 3301999)
       ''refresh-token'' (ScopeString ''api://app-id/User.Access'') afterSilent
     = (TokenOk ''own-app-token'', afterSilent)
   \<and> exchangeTokenOBO azureConfig (envAt 3400000 (grants ''second-token'' None) 3401000)
       ''assertion-of-alice'' (ScopeString ''Calendars.Read'') afterAlice
     = (TokenOk ''second-token'',
        \<lparr>tokenCache = [''obo:Calendars.Read'' \<mapsto>
                          \<lparr>accessToken = ''second-token'', expiresAt = 7001000\<rparr>],
         fetchLog = [oboRequest azureConfig ''assertion-of-alice'' ''Calendars.Read'',
                     oboRequest azureConfig ''assertion-of-alice'' ''Calendars.Read'']\<rparr>)"
proof -
  let ?late = "envAt 3301000 (grants ''renewed-token'' None) 3302000"
  let ?early = "envAt 3300999 (grants ''renewed-token'' None) 3301999"
  let ?own = "ScopeString ''api://app-id/User.Access''"
  let ?renewed = "\<lparr>access_token = Some ''renewed-token'', expires_in = None\<rparr>"
  let ?granted = "\<lparr>res_ok = True, res_status = 200, res_statusText = ''OK'', res_text = None,
                   res_json = JsonResolves ?renewed\<rparr>"
  let ?held = "\<lparr>accessToken = ''own-app-token'', expiresAt = 3601000\<rparr>"
  have reachS: "reachable azureConfig afterSilent"
    unfolding afterSilent_def by (rule reachable_silent [OF reachable_init])
  have heldS: "tokenCache afterSilent (''silent:'' @ scopesOf ?own) = Some ?held"
    by (simp add: afterSilent_state scopesOf_def)
  have staleS: "expiresAt ?held \<le> clockAtLookup ?late + TOKEN_EXPIRY_BUFFER_MS"
    by (simp add: envAt_def TOKEN_EXPIRY_BUFFER_MS_def)
  have freshS: "expiresAt ?held > clockAtLookup ?early + TOKEN_EXPIRY_BUFFER_MS"
    by (simp add: envAt_def TOKEN_EXPIRY_BUFFER_MS_def)
  have answerS: "endpoint ?late (silentRequest azureConfig ''refresh-token'' (scopesOf ?own))
        = FetchResolves ?granted
      \<and> res_ok ?granted \<and> res_json ?granted = JsonResolves ?renewed
      \<and> access_token ?renewed = Some ''renewed-token'' \<and> ''renewed-token'' \<noteq> []"
    by (simp add: envAt_def grants_def)
  have refetch: "acquireTokenSilent azureConfig ?late ''refresh-token'' ?own afterSilent
      = (TokenOk ''renewed-token'',
         \<lparr>tokenCache = (tokenCache afterSilent)(''silent:'' @ scopesOf ?own \<mapsto>
             \<lparr>accessToken = ''renewed-token'',
              expiresAt = clockAtStore ?late + lifetimeOf ?renewed * 1000\<rparr>),
          fetchLog = fetchLog afterSilent
                       @ [silentRequest azureConfig ''refresh-token'' (scopesOf ?own)]\<rparr>)"
    using cache_expiry_buffer [OF reachS, of ?late "''refresh-token''" ?own]
      heldS staleS answerS
    by blast
  have reuse: "acquireTokenSilent azureConfig ?early ''refresh-token'' ?own afterSilent
      = (TokenOk (accessToken ?held), afterSilent)"
    using cache_expiry_buffer [OF reachS, of ?early "''refresh-token''" ?own] heldS freshS
    by blast
  let ?w = "envAt 3400000 (grants ''second-token'' None) 3401000"
  let ?data = "\<lparr>access_token = Some ''second-token'', expires_in = None\<rparr>"
  let ?res = "\<lparr>res_ok = True, res_status = 200, res_statusText = ''OK'', res_text = None,
               res_json = JsonResolves ?data\<rparr>"
  have reach: "reachable azureConfig afterAlice"
    unfolding afterAlice_def by (rule reachable_obo [OF reachable_init])
  have entry: "tokenCache afterAlice (''obo:'' @ scopesOf (ScopeString ''Calendars.Read''))
      = Some \<lparr>accessToken = ''token-of-alice'', expiresAt = 3601000\<rparr>"
    by (simp add: afterAlice_state scopesOf_def)
  have stale: "expiresAt \<lparr>accessToken = ''token-of-alice'', expiresAt = 3601000\<rparr>
      \<le> clockAtLookup ?w + TOKEN_EXPIRY_BUFFER_MS"
    by (simp add: envAt_def TOKEN_EXPIRY_BUFFER_MS_def)
  have answer: "endpoint ?w (oboRequest azureConfig ''assertion-of-alice''
                    (scopesOf (ScopeString ''Calendars.Read''))) = FetchResolves ?res
      \<and> res_ok ?res \<and> res_json ?res = JsonResolves ?data
      \<and> access_token ?data = Some ''second-token'' \<and> ''second-token'' \<noteq> []"
    by (simp add: envAt_def grants_def)
  have exchange: "exchangeTokenOBO azureConfig ?w ''assertion-of-alice''
          (ScopeString ''Calendars.Read'') afterAlice
      = (TokenOk ''second-token'',
         \<lparr>tokenCache = (tokenCache afterAlice)(''obo:'' @ scopesOf (ScopeString ''Calendars.Read'') \<mapsto>
             \<lparr>accessToken = ''second-token'',
              expiresAt = clockAtStore ?w + lifetimeOf ?data * 1000\<rparr>),
          fetchLog = fetchLog afterAlice @ [oboRequest azureConfig ''assertion-of-alice''
                        (scopesOf (ScopeString ''Calendars.Read''))]\<rparr>)"
    using cache_expiry_buffer [OF reach, of ?w _ "ScopeString ''Calendars.Read''"
        "''assertion-of-alice''"] entry stale answer
    by blast
  have one: "acquireTokenSilent azureConfig ?late ''refresh-token'' ?own afterSilent
     = (TokenOk ''renewed-token'',
        \<lparr>tokenCache = [''silent:api://app-id/User.Access'' \<mapsto>
                          \<lparr>accessToken = ''renewed-token'', expiresAt = 6902000\<rparr>],
         fetchLog = [silentRequest azureConfig ''refresh-token'' ''api://app-id/User.Access'',
                     silentRequest azureConfig ''refresh-token'' ''api://app-id/User.Access'']\<rparr>)"
    using refetch by (simp add: afterSilent_state scopesOf_def envAt_def lifetimeOf_def)
  have two: "acquireTokenSilent azureConfig ?early ''refresh-token'' ?own afterSilent
     = (TokenOk ''own-app-token'', afterSilent)"
    using reuse by simp
  have three: "exchangeTokenOBO azureConfig ?w ''assertion-of-alice''
          (ScopeString ''Calendars.Read'') afterAlice
     = (TokenOk ''second-token'',
        \<lparr>tokenCache = [''obo:Calendars.Read'' \<mapsto>
                          \<lparr>accessToken = ''second-token'', expiresAt = 7001000\<rparr>],
         fetchLog = [oboRequest azureConfig ''assertion-of-alice'' ''Calendars.Read'',
                     oboRequest azureConfig ''assertion-of-alice'' ''Calendars.Read'']\<rparr>)"
    using exchange by (simp add: afterAlice_state scopesOf_def envAt_def lifetimeOf_def)
  show ?thesis using one two three by simp
qed

lemma silent_log:
  "fetchLog (snd (acquireTokenSilent cfg w rt sc s)) = fetchLog s
   \<or> fetchLog (snd (acquireTokenSilent cfg w rt sc s))
        = fetchLog s @ [silentRequest cfg rt (scopesOf sc)]"
  by (auto simp: acquireTokenSilent_def Let_def fetch_def setCachedToken_def
      split: if_splits fetch_outcome.splits json_outcome.splits option.splits)

text \<open>
  Claim C4. \<open>acquireDownstreamToken\<close> is the composition the spec describes. When the
  silent step for the own-app scope fails, its error and its final state are the result:
  no exchange takes place, the log of requests holds at most the silent step's request
  more than before. When the silent step succeeds with a token, the result is that of
  \<open>exchangeTokenOBO\<close> for this token and the downstream scopes, run in the state the
  silent step left.
\<close>

theorem acquireDownstream_composition:
  "acquireDownstreamToken cfg w1 w2 refreshToken targetScopes s
     = acquireDownstream_spec cfg w1 w2 refreshToken targetScopes s
   \<and> (\<forall>err s1. acquireTokenSilent cfg w1 refreshToken (ScopeString (OUR_APP_SCOPE cfg)) s
                  = (TokenErr err, s1) \<longrightarrow>
          acquireDownstreamToken cfg w1 w2 refreshToken targetScopes s = (TokenErr err, s1)
          \<and> (fetchLog s1 = fetchLog s
               \<or> fetchLog s1 = fetchLog s @ [silentRequest cfg refreshToken (OUR_APP_SCOPE cfg)]))
   \<and> (\<forall>tok s1. acquireTokenSilent cfg w1 refreshToken (ScopeString (OUR_APP_SCOPE cfg)) s
                  = (TokenOk tok, s1) \<longrightarrow>
          acquireDownstreamToken cfg w1 w2 refreshToken targetScopes s
            = exchangeTokenOBO cfg w2 tok targetScopes s1)"
proof -
  obtain r s1 where step: "acquireTokenSilent cfg w1 refreshToken (ScopeString (OUR_APP_SCOPE cfg)) s
      = (r, s1)"
    by (cases "acquireTokenSilent cfg w1 refreshToken (ScopeString (OUR_APP_SCOPE cfg)) s")
  have log: "fetchLog s1 = fetchLog s
      \<or> fetchLog s1 = fetchLog s @ [silentRequest cfg refreshToken (OUR_APP_SCOPE cfg)]"
    using silent_log [of cfg w1 refreshToken "ScopeString (OUR_APP_SCOPE cfg)" s] step
    by (simp add: scopesOf_def)
  show ?thesis
  proof (cases r)
    case (TokenOk tok)
    then show ?thesis
      using step
      by (simp add: acquireDownstreamToken_def acquireDownstream_spec_def OUR_APP_SCOPE_def)
  next
    case (TokenErr err)
    then show ?thesis
      using step log
      by (simp add: acquireDownstreamToken_def acquireDownstream_spec_def OUR_APP_SCOPE_def)
  qed
qed

theorem acquireDownstream_composition_witness:
  "acquireDownstreamToken azureConfig (envAt 0 refuses 1000)
       (envAt 2000 (grants ''downstream-token'' None) 3000)
       ''stale-refresh-token'' (ScopeString ''Calendars.Read'') initialState
     = (TokenErr ''Silent token acquisition error (400): invalid_grant'',
        \<lparr>tokenCache = Map.empty,
         fetchLog = [silentRequest azureConfig ''stale-refresh-token''
                       ''api://app-id/User.Access'']\<rparr>)"
proof -
  have digits: "numberToString 400 = ''400''"
    by code_simp
  have silent: "acquireTokenSilent azureConfig (envAt 0 refuses 1000) ''stale-refresh-token''
        (ScopeString (OUR_APP_SCOPE azureConfig)) initialState
     = (TokenErr ''Silent token acquisition error (400): invalid_grant'',
        \<lparr>tokenCache = Map.empty,
         fetchLog = [silentRequest azureConfig ''stale-refresh-token''
                       ''api://app-id/User.Access'']\<rparr>)"
    by (simp add: acquireTokenSilent_def Let_def fetch_def falsy_def getCachedToken_def
        initialState_def azureConfig_def envAt_def refuses_def scopesOf_def OUR_APP_SCOPE_def
        detailOrStatusText_def digits)
  show ?thesis
    using acquireDownstream_composition [of azureConfig "envAt 0 refuses 1000"
        "envAt 2000 (grants ''downstream-token'' None) 3000" "''stale-refresh-token''"
        "ScopeString ''Calendars.Read''" initialState] silent
    by blast
qed


section \<open>Properties of the authorizer\<close>

text \<open>
  Claim C1, as stated: in \<open>token\<close> mode with the right token, a verifier and an
  \<open>oidcToken\<close>, a failed OIDC check gives \<open>method = token\<close>. The identity-proxy shortcut
  comes before both checks: a connection the overlay network vouches for, under
  \<open>allowTailscaleIdentity\<close>, is accepted with \<open>method = tailscale\<close> whatever else it
  presents.
\<close>

theorem authorize_precedence_counterexample:
  "auth_mode (tokenModeConfig True) = ModeToken
   \<and> auth_token (tokenModeConfig True) = presented_token (presenting ''secret'' ''bad-jwt'')
   \<and> oidcVerifier (overlayContext refusingVerifier) = Some refusingVerifier
   \<and> presented_oidcToken (presenting ''secret'' ''bad-jwt'') = Some ''bad-jwt''
   \<and> refusingVerifier ''bad-jwt'' = VerifyFail ''oidc_token_invalid''
   \<and> authorize (tokenModeConfig True) (presenting ''secret'' ''bad-jwt'')
        (overlayContext refusingVerifier) = Accepted MethodTailscale (Some ''peter'')
   \<and> methodOf (authorize (tokenModeConfig True) (presenting ''secret'' ''bad-jwt'')
        (overlayContext refusingVerifier)) \<noteq> Some MethodToken"
  by (simp add: authorize_def tokenModeConfig_def presenting_def overlayContext_def
      refusingVerifier_def createMockOidcVerifier_def methodOf_def)

text \<open>
  Claim C1, amended. In \<open>token\<close> mode, with a verifier and an \<open>oidcToken\<close> supplied, and
  when the identity-proxy shortcut does not accept the connection: if the verifier
  refuses the assertion and the presented token equals the configured one, the
  connection is accepted with \<open>method = token\<close>; if the verifier accepts the assertion,
  the connection is accepted with \<open>method = oidc\<close> as the verified user, whatever token
  is presented.
\<close>

theorem authorize_precedence:
  assumes "auth_mode config = ModeToken"
    and "oidcVerifier ctx = Some verifier"
    and "presented_oidcToken presented = Some assertion"
    and "\<not> (allowTailscaleIdentity config \<and> overlayOrigin ctx \<and> identityLookup ctx \<noteq> None)"
  shows "(\<forall>reason expected.
            verifier assertion = VerifyFail reason \<and> auth_token config = Some expected
            \<and> presented_token presented = Some expected \<longrightarrow>
            methodOf (authorize config presented ctx) = Some MethodToken)
       \<and> (\<forall>who claims.
            verifier assertion = VerifyOk who claims \<longrightarrow>
            authorize config presented ctx = Accepted MethodOidc (Some who))"
proof -
  have skip: "(if allowTailscaleIdentity config \<and> overlayOrigin ctx then identityLookup ctx
               else None) = None"
    using assms(4) by auto
  have step2: "authorize config presented ctx =
      (case verifier assertion of
         VerifyOk who claims \<Rightarrow> Accepted MethodOidc (Some who)
       | VerifyFail reason \<Rightarrow> modeSpecificCheck config presented (Some reason))"
    unfolding authorize_def skip using assms(2,3) by simp
  have fallback: "methodOf (modeSpecificCheck config presented failure) = Some MethodToken"
    if "auth_token config = Some expected" and "presented_token presented = Some expected"
    for failure expected
    using that assms(1) by (simp add: modeSpecificCheck_def methodOf_def)
  show ?thesis
    unfolding step2 using fallback by (auto split: OidcVerifyResult.splits)
qed

theorem authorize_precedence_witness:
  "methodOf (authorize (tokenModeConfig False) (presenting ''secret'' ''bad-jwt'')
       (directContext refusingVerifier)) = Some MethodToken
   \<and> authorize (tokenModeConfig False) (presenting ''wrong-token'' ''good-jwt'')
       (directContext acceptingVerifier) = Accepted MethodOidc (Some ''oidc-user'')"
proof -
  have pre: "auth_mode (tokenModeConfig False) = ModeToken"
    "oidcVerifier (directContext refusingVerifier) = Some refusingVerifier"
    "oidcVerifier (directContext acceptingVerifier) = Some acceptingVerifier"
    "presented_oidcToken (presenting ''secret'' ''bad-jwt'') = Some ''bad-jwt''"
    "presented_oidcToken (presenting ''wrong-token'' ''good-jwt'') = Some ''good-jwt''"
    "\<not> (allowTailscaleIdentity (tokenModeConfig False) \<and> overlayOrigin (directContext refusingVerifier)
        \<and> identityLookup (directContext refusingVerifier) \<noteq> None)"
    "\<not> (allowTailscaleIdentity (tokenModeConfig False) \<and> overlayOrigin (directContext acceptingVerifier)
        \<and> identityLookup (directContext acceptingVerifier) \<noteq> None)"
    by (simp_all add: tokenModeConfig_def directContext_def presenting_def)
  have refuse: "refusingVerifier ''bad-jwt'' = VerifyFail ''oidc_token_invalid''
      \<and> auth_token (tokenModeConfig False) = Some ''secret''
      \<and> presented_token (presenting ''secret'' ''bad-jwt'') = Some ''secret''"
    by (simp add: refusingVerifier_def createMockOidcVerifier_def tokenModeConfig_def
        presenting_def)
  have accept: "acceptingVerifier ''good-jwt'' = VerifyOk ''oidc-user'' [''sub'' \<mapsto> JString ''oidc-user'']"
    by (simp add: acceptingVerifier_def createMockOidcVerifier_def Let_def)
  show ?thesis
    using authorize_precedence [OF pre(1) pre(2) pre(4) pre(6)]
      authorize_precedence [OF pre(1) pre(3) pre(5) pre(7)] refuse accept
    by blast
qed

end
